theory Spec2Isabelle
  imports Complex_Main "HOL-Library.Word"
begin

unbundle bit_operations_syntax

section \<open>Host side: the render orchestrator (class VolumeRenderCL)\<close>

text \<open>
  The embedding follows the first revision of the orchestrator source (the one with the
  grouped kernel-argument structs \<open>camera_params\<close>, \<open>rendering_params\<close>,
  \<open>raycast_params\<close> and \<open>pathtrace_params\<close>, in which the volume resolution is an array
  of \<open>unsigned int\<close>) and the volume reader \<open>DatRawReader\<close>.

  Machine integers keep their width: \<open>unsigned char\<close> is \<open>8 word\<close>, \<open>unsigned int\<close> and
  \<open>cl_uint\<close> are \<open>32 word\<close>, \<open>size_t\<close> is \<open>64 word\<close>. Lengths of \<open>std::vector\<close>s are
  natural numbers. \<open>float\<close> and \<open>double\<close> values are idealised as real numbers.

  A member function that can throw returns its outcome together with the object state it
  leaves behind, because a C++ exception does not roll back the assignments made before it.
  The creation of a one-dimensional image fails when its width is zero or exceeds the
  device's image width limit, which the state carries; the wrapper then throws
  \<open>cl::Error\<close>. The other calls into the OpenCL runtime (creating 3D images, binding
  kernel arguments, enqueueing kernels) are taken to succeed.
\<close>

type_synonym uchar = "8 word"
type_synonym uint = "32 word"
type_synonym size_t = "64 word"

datatype error =
    InvalidArgument string
  | RuntimeError string

type_synonym vec3 = "real \<times> real \<times> real"
type_synonym vec4 = "real \<times> real \<times> real \<times> real"

subsection \<open>The volume reader's state\<close>

record properties =
  raw_file_names :: "string list"
  volume_res :: "uint \<times> uint \<times> uint \<times> uint"
  slice_thickness :: vec3
  format :: string
  image_channel_order :: string

text \<open>
  The reader keeps the properties read from the \<open>.dat\<close> file, one raw buffer per time step
  and one histogram of 256 bins per time step.
\<close>

record dat_raw_reader =
  dr_prop :: properties
  raw_data :: "uchar list list"
  histograms :: "real list list"

text \<open>\<open>DatRawReader::has_data\<close>: \<open>return !(_raw_data.empty())\<close>.\<close>

definition has_data :: "dat_raw_reader \<Rightarrow> bool" where
  "has_data dr = (\<not> (raw_data dr = []))"

text \<open>\<open>DatRawReader::clearData\<close> clears the raw buffers and the histograms.\<close>

definition clearData :: "dat_raw_reader \<Rightarrow> dat_raw_reader" where
  "clearData dr = dr\<lparr>raw_data := [], histograms := []\<rparr>"

definition res_x :: "properties \<Rightarrow> uint" where
  "res_x p = (case volume_res p of (x, y, z, t) \<Rightarrow> x)"

definition res_y :: "properties \<Rightarrow> uint" where
  "res_y p = (case volume_res p of (x, y, z, t) \<Rightarrow> y)"

definition res_z :: "properties \<Rightarrow> uint" where
  "res_z p = (case volume_res p of (x, y, z, t) \<Rightarrow> z)"

definition res_t :: "properties \<Rightarrow> uint" where
  "res_t p = (case volume_res p of (x, y, z, t) \<Rightarrow> t)"

subsection \<open>Device memory objects and kernel parameters\<close>

datatype channel_order = CL_R | CL_RG | CL_RGBA | CL_ARGB | CL_BGRA

datatype channel_type = CL_UNORM_INT8 | CL_UNORM_INT16 | CL_FLOAT

text \<open>A 3D image as the host creates it: format, extent and the host bytes copied in.\<close>

record image3d =
  img_order :: channel_order
  img_type :: channel_type
  img_dim :: "uint \<times> uint \<times> uint"
  img_host :: "uchar list"

record camera_params =
  viewMat :: "real list"
  bbox_bl :: vec3
  bbox_tr :: vec3
  ortho :: uint

record rendering_params =
  backgroundColor :: vec4
  illumType :: uint
  imgEss :: uint
  showEss :: uint
  useLinear :: uint
  useGradient :: uint
  technique :: uint
  seed :: uint
  iteration :: uint

record raycast_params =
  samplingRate :: real
  useAO :: uint
  contours :: uint
  aerial :: uint
  brickRes :: vec3

record pathtrace_params =
  max_extinction :: real

text \<open>
  The members of \<open>VolumeRenderCL\<close> that the functions below read or write;
  \<open>image_max_width\<close> is the image width limit of the device behind \<open>_contextCL\<close>.
\<close>

record render_state =
  image_max_width :: nat
  dr :: dat_raw_reader
  volLoaded :: bool
  volumesMem :: "image3d list"
  bricksMem :: "(nat \<times> nat \<times> nat) list"
  tffMem :: "uchar list"
  tffPrefixMem :: "uint list"
  modelScale :: "real list"
  useImgESS :: bool
  essCompiled :: bool
  timestep :: size_t
  camera :: camera_params
  rendering :: rendering_params
  raycast :: raycast_params
  pathtrace :: pathtrace_params

text \<open>The outcome of a member function: the value or the exception, and the state left.\<close>

type_synonym 'a outcome = "(error + 'a) \<times> render_state"

subsection \<open>Progressive-accumulation counter\<close>

definition resetIteration :: "render_state \<Rightarrow> render_state" where
  "resetIteration st = st\<lparr>rendering := (rendering st)\<lparr>iteration := 0\<rparr>\<rparr>"

subsection \<open>Brick grid set-up on the host\<close>

text \<open>\<open>RoundPow2\<close>: the next power of two, or the previous one when that is nearer.\<close>

definition RoundPow2 :: "uint \<Rightarrow> uint" where
  "RoundPow2 n =
     (let val0 = n - 1;
          val1 = val0 OR drop_bit 1 val0;
          val2 = val1 OR drop_bit 2 val1;
          val3 = val2 OR drop_bit 4 val2;
          val4 = val3 OR drop_bit 8 val3;
          val5 = val4 OR drop_bit 16 val4;
          val = val5 + 1;
          x = drop_bit 1 val
      in if (val - n) > (n - x) then x else val)"

definition known_format :: "string \<Rightarrow> bool" where
  "known_format f = (f = ''UCHAR'' \<or> f = ''USHORT'' \<or> f = ''FLOAT'')"

definition brick_axis :: "uint \<Rightarrow> uint" where
  "brick_axis r = max 1 (RoundPow2 (r div 64))"

definition bricksTexSize :: "properties \<Rightarrow> nat \<times> nat \<times> nat" where
  "bricksTexSize p =
     (nat \<lceil>real (unat (res_x p)) / real (unat (brick_axis (res_x p)))\<rceil>,
      nat \<lceil>real (unat (res_y p)) / real (unat (brick_axis (res_y p)))\<rceil>,
      nat \<lceil>real (unat (res_z p)) / real (unat (brick_axis (res_z p)))\<rceil>)"

text \<open>
  The loop of \<open>generateBricks\<close> over the raw files: one brick image per time step, each
  checked by \<open>setMemObjectsBrickGen\<close> against the uploaded volumes before the aggregation
  kernel is run on it. The first argument is the number of files still to do, the second the
  loop index.
\<close>

fun brick_loop :: "nat \<Rightarrow> nat \<Rightarrow> nat \<times> nat \<times> nat \<Rightarrow> render_state \<Rightarrow> unit outcome" where
  "brick_loop 0 i sz st = (Inr (), st)"
| "brick_loop (Suc k) i sz st =
     (let st1 = st\<lparr>bricksMem := bricksMem st @ [sz]\<rparr>
      in if length (volumesMem st1) \<le> i \<or> length (bricksMem st1) \<le> i
         then (Inl (RuntimeError ''Error loading timeseries data: size mismatch.''), st1)
         else brick_loop k (Suc i) sz st1)"

definition generateBricks :: "render_state \<Rightarrow> unit outcome" where
  "generateBricks st =
     (if \<not> has_data (dr st) then (Inr (), st)
      else
        let p = dr_prop (dr st);
            brickResF = (real (unat (res_x p)) / real (unat (brick_axis (res_x p))),
                         real (unat (res_y p)) / real (unat (brick_axis (res_y p))),
                         real (unat (res_z p)) / real (unat (brick_axis (res_z p))));
            st1 = st\<lparr>raycast := (raycast st)\<lparr>brickRes := brickResF\<rparr>\<rparr>
        in if \<not> known_format (format p)
           then (Inl (InvalidArgument ''Unknown or invalid volume data format.''), st1)
           else brick_loop (length (raw_file_names p)) 0 (bricksTexSize p)
                  (st1\<lparr>bricksMem := []\<rparr>))"

subsection \<open>Transfer function and its alpha prefix sum\<close>

text \<open>
  The copy loop \<open>for (i = 3; i < tff.size(); i += 4) prefixSum.push_back(tff.at(i))\<close>:
  every fourth byte, starting at index 3, widened to \<open>unsigned int\<close>. Bytes after the last
  complete RGBA entry are not read.
\<close>

fun alphaValues :: "uchar list \<Rightarrow> uint list" where
  "alphaValues (r # g # b # a # rest) = ucast a # alphaValues rest"
| "alphaValues _ = []"

text \<open>
  \<open>std::partial_sum\<close> in place on a vector of \<open>unsigned int\<close>: entry \<open>i\<close> becomes the sum of
  the entries up to and including \<open>i\<close>, computed modulo \<open>2^32\<close>.
\<close>

fun partial_sum_from :: "uint \<Rightarrow> uint list \<Rightarrow> uint list" where
  "partial_sum_from acc [] = []"
| "partial_sum_from acc (x # xs) = (acc + x) # partial_sum_from (acc + x) xs"

definition partial_sum :: "uint list \<Rightarrow> uint list" where
  "partial_sum xs = partial_sum_from 0 xs"

definition tffPrefixSum :: "uchar list \<Rightarrow> uint list" where
  "tffPrefixSum tff = partial_sum (alphaValues tff)"

text \<open>
  The constructor \<open>cl::Image1D(context, flags, format, width, host_ptr)\<close> succeeds for a
  width between 1 and the device limit. \<open>logCLerror\<close> turns the \<open>cl::Error\<close> of a failed
  call into a \<open>std::runtime_error\<close> whose text names the failed call and the error code.
\<close>

definition image1d_ok :: "render_state \<Rightarrow> nat \<Rightarrow> bool" where
  "image1d_ok st width = (0 < width \<and> width \<le> image_max_width st)"

definition logCLerror :: error where
  "logCLerror = RuntimeError ''ERROR: clCreateImage (CL_INVALID_IMAGE_SIZE)''"

definition setTffPrefixSum :: "uint list \<Rightarrow> render_state \<Rightarrow> unit outcome" where
  "setTffPrefixSum ps st =
     (if \<not> has_data (dr st) then (Inr (), st)
      else if \<not> image1d_ok st (length ps) then (Inl logCLerror, st)
      else (Inr (), st\<lparr>tffPrefixMem := ps\<rparr>))"

text \<open>
  \<open>setTransferFunction\<close>: the table is uploaded as an image of \<open>tff.size() / 4\<close> texels
  before anything else is done; when the device refuses it, nothing has been changed and no
  prefix sum is derived.
\<close>

definition setTransferFunction :: "uchar list \<Rightarrow> render_state \<Rightarrow> unit outcome" where
  "setTransferFunction tff st =
     (if \<not> has_data (dr st) then (Inr (), st)
      else if \<not> image1d_ok st (length tff div 4) then (Inl logCLerror, st)
      else
        case generateBricks (st\<lparr>tffMem := tff\<rparr>) of
          (Inl e, st1) \<Rightarrow> (Inl e, st1)
        | (Inr u, st1) \<Rightarrow>
            (case setTffPrefixSum (tffPrefixSum tff) st1 of
               (Inl e, st2) \<Rightarrow> (Inl e, st2)
             | (Inr u, st2) \<Rightarrow> (Inr (), resetIteration st2)))"

subsection \<open>Uploading and loading a volume\<close>

definition known_channel_order :: "string \<Rightarrow> channel_order option" where
  "known_channel_order co =
     (if co = ''R'' \<or> co = [] \<or> co = ''I'' \<or> co = ''LUMINANCE'' then Some CL_R
      else if co = ''RG'' then Some CL_RG
      else if co = ''RGBA'' then Some CL_RGBA
      else if co = ''ARGB'' then Some CL_ARGB
      else if co = ''BGRA'' then Some CL_BGRA
      else None)"

definition known_data_type :: "string \<Rightarrow> (channel_type \<times> uint) option" where
  "known_data_type f =
     (if f = ''UCHAR'' then Some (CL_UNORM_INT8, 1)
      else if f = ''USHORT'' then Some (CL_UNORM_INT16, 2)
      else if f = ''FLOAT'' then Some (CL_FLOAT, 4)
      else None)"

text \<open>
  The number of bytes one time step is required to hold: the product
  \<open>volume_res[0] * volume_res[1] * volume_res[2] * formatMultiplier\<close> of four
  \<open>unsigned int\<close>s, computed modulo \<open>2^32\<close> before it is compared with the buffer size.
\<close>

definition required_size :: "properties \<Rightarrow> uint \<Rightarrow> uint" where
  "required_size p formatMultiplier = res_x p * res_y p * res_z p * formatMultiplier"

definition mismatch_msg :: string where
  "mismatch_msg = ''Volume size does not match size specified in dat file.''"

text \<open>
  The upload loop of \<open>volDataToCLmem\<close> over the time steps. A buffer shorter than required
  clears the reader and throws; the images pushed for earlier time steps stay.
\<close>

definition volume_image ::
  "properties \<Rightarrow> channel_order \<Rightarrow> channel_type \<Rightarrow> uchar list \<Rightarrow> image3d" where
  "volume_image p co ct v =
     \<lparr>img_order = co, img_type = ct, img_dim = (res_x p, res_y p, res_z p), img_host = v\<rparr>"

fun upload_loop ::
  "channel_order \<Rightarrow> channel_type \<Rightarrow> uint \<Rightarrow> uchar list list \<Rightarrow> render_state \<Rightarrow> unit outcome"
where
  "upload_loop co ct fm [] st = (Inr (), st)"
| "upload_loop co ct fm (v # vs) st =
     (let p = dr_prop (dr st)
      in if unat (required_size p fm) > length v
         then (Inl (RuntimeError mismatch_msg), st\<lparr>dr := clearData (dr st)\<rparr>)
         else upload_loop co ct fm vs
                (st\<lparr>volumesMem := volumesMem st @ [volume_image p co ct v]\<rparr>))"

definition volDataToCLmem :: "uchar list list \<Rightarrow> render_state \<Rightarrow> unit outcome" where
  "volDataToCLmem volumeData st =
     (if \<not> has_data (dr st) then (Inr (), st)
      else
        case known_channel_order (image_channel_order (dr_prop (dr st))) of
          None \<Rightarrow> (Inl (InvalidArgument ''Unknown or invalid volume color format.''), st)
        | Some co \<Rightarrow>
            (case known_data_type (format (dr_prop (dr st))) of
               None \<Rightarrow> (Inl (InvalidArgument ''Unknown or invalid volume data format.''), st)
             | Some (ct, fm) \<Rightarrow> upload_loop co ct fm volumeData (st\<lparr>volumesMem := []\<rparr>)))"

definition calcScaling :: "render_state \<Rightarrow> render_state" where
  "calcScaling st =
     (if \<not> has_data (dr st) then st
      else
        let p = dr_prop (dr st);
            (tx, ty, tz) = slice_thickness p;
            sx = real (unat (res_x p)) * (tx * (1 / tx));
            sy = real (unat (res_y p)) * (ty * (1 / tx));
            sz = real (unat (res_z p)) * (tz * (1 / tx));
            m = max sx (max sy sz)
        in st\<lparr>modelScale := [m / sx, m / sy, m / sz]\<rparr>)"

text \<open>The linear default prefix sum installed by \<open>loadVolumeData\<close>.\<close>

definition default_prefix_sum :: "uint list" where
  "default_prefix_sum = partial_sum (map (\<lambda>i. of_nat i * 4) [0..<1024])"

definition to_runtime_error :: "error \<Rightarrow> error" where
  "to_runtime_error e = (case e of InvalidArgument m \<Rightarrow> RuntimeError m | RuntimeError m \<Rightarrow> RuntimeError m)"

text \<open>
  \<open>loadVolumeData\<close>. The reader call \<open>_dr.read_files\<close> is represented by what it has read:
  the properties, one raw buffer per time step and their histograms, which it saves in the
  reader. The accessor \<open>_dr.data()\<close> throws when no raw data has been read.
\<close>

definition loadVolumeData ::
  "properties \<Rightarrow> uchar list list \<Rightarrow> real list list \<Rightarrow> render_state \<Rightarrow> nat outcome" where
  "loadVolumeData p volumeData hist st =
     (let st1 = st\<lparr>volLoaded := False,
                   dr := \<lparr>dr_prop = p, raw_data = volumeData, histograms = hist\<rparr>\<rparr>
      in if \<not> has_data (dr st1) then (Inl (RuntimeError ''No data available.''), st1)
         else
           case volDataToCLmem (raw_data (dr st1)) st1 of
             (Inl e, st2) \<Rightarrow> (Inl (to_runtime_error e), st2)
           | (Inr u, st2) \<Rightarrow>
               (case setTffPrefixSum default_prefix_sum (calcScaling st2) of
                  (Inl e, st3) \<Rightarrow> (Inl e, st3)
                | (Inr u, st3) \<Rightarrow>
                    (let st4 = st3\<lparr>volLoaded := True\<rparr>
                     in (Inr (length (raw_data (dr st4))), st4))))"

subsection \<open>Construction\<close>

text \<open>
  The state after the constructor, with the default member initialisers of the header, on
  a device with the given image width limit.
\<close>

definition init_state :: "nat \<Rightarrow> render_state" where
  "init_state w =
     \<lparr>image_max_width = w,
      dr = \<lparr>dr_prop = \<lparr>raw_file_names = [], volume_res = (0, 0, 0, 1),
                         slice_thickness = (1, 1, 1), format = ''UNKNOWN_FORMAT'',
                         image_channel_order = ''R''\<rparr>,
            raw_data = [], histograms = []\<rparr>,
      volLoaded = False,
      volumesMem = [],
      bricksMem = [],
      tffMem = [],
      tffPrefixMem = [],
      modelScale = [1, 1, 1],
      useImgESS = False,
      essCompiled = True,
      timestep = 0,
      camera = \<lparr>viewMat = [1, 0, 0, 0, 0, 1, 0, 0, 0, 0, 1, 0, 0, 0, 0, 1],
                bbox_bl = (-1, -1, -1), bbox_tr = (1, 1, 1), ortho = 0\<rparr>,
      rendering = \<lparr>backgroundColor = (1, 1, 1, 1), illumType = 1, imgEss = 0, showEss = 0,
                   useLinear = 1, useGradient = 0, technique = 0, seed = 42, iteration = 0\<rparr>,
      raycast = \<lparr>samplingRate = 3 / 2, useAO = 0, contours = 0, aerial = 0,
                 brickRes = (0, 0, 0)\<rparr>,
      pathtrace = \<lparr>max_extinction = 100\<rparr>\<rparr>"

subsection \<open>Rendering a frame advances the counter\<close>

text \<open>
  \<open>runRaycast\<close>, as far as the orchestrator's own state goes: the kernel is dispatched with
  a fresh seed (the argument), and the iteration counter is incremented.
\<close>

definition runRaycast :: "uint \<Rightarrow> render_state \<Rightarrow> render_state" where
  "runRaycast new_seed st =
     (if \<not> volLoaded st then st
      else st\<lparr>rendering := (rendering st)\<lparr>seed := new_seed,
                                           iteration := iteration (rendering st) + 1\<rparr>\<rparr>)"

subsection \<open>Camera and render-control setters\<close>

definition updateView :: "real list \<Rightarrow> render_state \<Rightarrow> render_state" where
  "updateView vm st =
     (if \<not> has_data (dr st) \<or> length (modelScale st) < 3 then st
      else resetIteration (st\<lparr>camera := (camera st)\<lparr>viewMat := take 16 vm\<rparr>\<rparr>))"

definition updateSamplingRate :: "real \<Rightarrow> render_state \<Rightarrow> render_state" where
  "updateSamplingRate sr st = st\<lparr>raycast := (raycast st)\<lparr>samplingRate := sr\<rparr>\<rparr>"

definition setBBox :: "vec3 \<Rightarrow> vec3 \<Rightarrow> render_state \<Rightarrow> render_state" where
  "setBBox bl tr st =
     resetIteration (st\<lparr>camera := (camera st)\<lparr>bbox_bl := bl, bbox_tr := tr\<rparr>\<rparr>)"

definition of_bool_uint :: "bool \<Rightarrow> uint" where
  "of_bool_uint b = (if b then 1 else 0)"

definition setCamOrtho :: "bool \<Rightarrow> render_state \<Rightarrow> render_state" where
  "setCamOrtho b st = st\<lparr>camera := (camera st)\<lparr>ortho := of_bool_uint b\<rparr>\<rparr>"

definition setIllumination :: "uint \<Rightarrow> render_state \<Rightarrow> render_state" where
  "setIllumination illum st = st\<lparr>rendering := (rendering st)\<lparr>illumType := illum\<rparr>\<rparr>"

definition setAmbientOcclusion :: "bool \<Rightarrow> render_state \<Rightarrow> render_state" where
  "setAmbientOcclusion ao st = st\<lparr>raycast := (raycast st)\<lparr>useAO := of_bool_uint ao\<rparr>\<rparr>"

definition setShowESS :: "bool \<Rightarrow> render_state \<Rightarrow> render_state" where
  "setShowESS b st = st\<lparr>rendering := (rendering st)\<lparr>showEss := of_bool_uint b\<rparr>\<rparr>"

definition setLinearInterpolation :: "bool \<Rightarrow> render_state \<Rightarrow> render_state" where
  "setLinearInterpolation b st = st\<lparr>rendering := (rendering st)\<lparr>useLinear := of_bool_uint b\<rparr>\<rparr>"

definition setContours :: "bool \<Rightarrow> render_state \<Rightarrow> render_state" where
  "setContours b st = st\<lparr>raycast := (raycast st)\<lparr>contours := of_bool_uint b\<rparr>\<rparr>"

definition setAerial :: "bool \<Rightarrow> render_state \<Rightarrow> render_state" where
  "setAerial b st = st\<lparr>raycast := (raycast st)\<lparr>aerial := of_bool_uint b\<rparr>\<rparr>"

definition setImgEss :: "bool \<Rightarrow> render_state \<Rightarrow> render_state" where
  "setImgEss b st =
     (st\<lparr>rendering := (rendering st)\<lparr>imgEss := of_bool_uint b\<rparr>\<rparr>)\<lparr>useImgESS := b\<rparr>"

definition setObjEss :: "bool \<Rightarrow> render_state \<Rightarrow> unit outcome" where
  "setObjEss b st =
     (let st1 = st\<lparr>essCompiled := b\<rparr>
      in if has_data (dr st1) then volDataToCLmem (raw_data (dr st1)) st1 else (Inr (), st1))"

definition setBackground :: "vec4 \<Rightarrow> render_state \<Rightarrow> render_state" where
  "setBackground color st =
     (case color of (r, g, b, a) \<Rightarrow>
        st\<lparr>rendering := (rendering st)\<lparr>backgroundColor := (r, g, b, 0)\<rparr>\<rparr>)"

definition setUseGradient :: "bool \<Rightarrow> render_state \<Rightarrow> render_state" where
  "setUseGradient b st = st\<lparr>rendering := (rendering st)\<lparr>useGradient := of_bool_uint b\<rparr>\<rparr>"

datatype technique_kind = TECH_RAYCAST | TECH_PATHTRACE

definition technique_code :: "technique_kind \<Rightarrow> uint" where
  "technique_code t = (case t of TECH_RAYCAST \<Rightarrow> 0 | TECH_PATHTRACE \<Rightarrow> 1)"

definition setTechnique :: "technique_kind \<Rightarrow> render_state \<Rightarrow> render_state" where
  "setTechnique tech st =
     resetIteration (st\<lparr>rendering := (rendering st)\<lparr>technique := technique_code tech\<rparr>\<rparr>)"

definition setExtinction :: "real \<Rightarrow> render_state \<Rightarrow> render_state" where
  "setExtinction e st = st\<lparr>pathtrace := (pathtrace st)\<lparr>max_extinction := e\<rparr>\<rparr>"

definition setTimestep :: "size_t \<Rightarrow> render_state \<Rightarrow> render_state" where
  "setTimestep t st =
     (if has_data (dr st) \<and> t \<ge> ucast (res_t (dr_prop (dr st))) then st
      else resetIteration (st\<lparr>timestep := t\<rparr>))"

subsection \<open>A small loaded state\<close>

text \<open>
  A one-voxel, one-time-step 8-bit volume, loaded into a freshly constructed renderer on a
  device whose images are at most 16384 texels wide. The concrete instances below are
  evaluated on it.
\<close>

definition demo_props :: properties where
  "demo_props = \<lparr>raw_file_names = [''demo.raw''], volume_res = (1, 1, 1, 1),
                  slice_thickness = (1, 1, 1), format = ''UCHAR'', image_channel_order = ''R''\<rparr>"

definition demo_loaded :: render_state where
  "demo_loaded = snd (loadVolumeData demo_props [[0]] [] (init_state 16384))"


section \<open>Device side: the rendering kernels (volumeraycast.cl, random.cl)\<close>

text \<open>
  The kernel source is present in two revisions. This section embeds the one with the flat
  argument list, whose \<open>volumeRender\<close> defines \<open>PATH_TRACE\<close> and therefore path-traces
  every pixel; the next section embeds the one with the grouped argument structs, in which
  the technique is a run-time parameter and the ray caster is reached. One work-item is one
  pixel; its model is a function of the images and arguments the kernel is bound to.
  \<open>float\<close> values are idealised as real numbers, so rounding is outside the model. The
  reciprocal of a zero is an infinity in \<open>float\<close>; where the source computes one, the model
  either carries it (the box intersection) or ends with an outcome of its own for results
  that are not finite numbers. Image reads through a sampler are done by the device: an
  image is represented by the function from coordinates to the value the sampler returns.
\<close>

subsection \<open>Vectors\<close>

type_synonym int3 = "int \<times> int \<times> int"

definition vx :: "vec4 \<Rightarrow> real" where "vx v = (case v of (x, y, z, w) \<Rightarrow> x)"
definition vy :: "vec4 \<Rightarrow> real" where "vy v = (case v of (x, y, z, w) \<Rightarrow> y)"
definition vz :: "vec4 \<Rightarrow> real" where "vz v = (case v of (x, y, z, w) \<Rightarrow> z)"
definition vw :: "vec4 \<Rightarrow> real" where "vw v = (case v of (x, y, z, w) \<Rightarrow> w)"

definition xyz :: "vec4 \<Rightarrow> vec3" where
  "xyz v = (case v of (x, y, z, w) \<Rightarrow> (x, y, z))"

definition with_xyz :: "vec4 \<Rightarrow> vec3 \<Rightarrow> vec4" where
  "with_xyz v a = (case a of (x, y, z) \<Rightarrow> (x, y, z, vw v))"

definition with_w :: "vec4 \<Rightarrow> real \<Rightarrow> vec4" where
  "with_w v w = (case v of (x, y, z, w0) \<Rightarrow> (x, y, z, w))"

definition vadd :: "vec3 \<Rightarrow> vec3 \<Rightarrow> vec3" where
  "vadd a b = (case a of (ax, ay, az) \<Rightarrow> case b of (bx, by, bz) \<Rightarrow> (ax + bx, ay + by, az + bz))"

definition vsub :: "vec3 \<Rightarrow> vec3 \<Rightarrow> vec3" where
  "vsub a b = (case a of (ax, ay, az) \<Rightarrow> case b of (bx, by, bz) \<Rightarrow> (ax - bx, ay - by, az - bz))"

definition vmul :: "vec3 \<Rightarrow> vec3 \<Rightarrow> vec3" where
  "vmul a b = (case a of (ax, ay, az) \<Rightarrow> case b of (bx, by, bz) \<Rightarrow> (ax * bx, ay * by, az * bz))"

definition vdiv :: "vec3 \<Rightarrow> vec3 \<Rightarrow> vec3" where
  "vdiv a b = (case a of (ax, ay, az) \<Rightarrow> case b of (bx, by, bz) \<Rightarrow> (ax / bx, ay / by, az / bz))"

definition smul :: "real \<Rightarrow> vec3 \<Rightarrow> vec3" where
  "smul k a = (case a of (ax, ay, az) \<Rightarrow> (k * ax, k * ay, k * az))"

definition splat :: "real \<Rightarrow> vec3" where
  "splat k = (k, k, k)"

definition vneg :: "vec3 \<Rightarrow> vec3" where
  "vneg a = smul (-1) a"

definition vneg4 :: "vec4 \<Rightarrow> vec4" where
  "vneg4 v = (case v of (x, y, z, w) \<Rightarrow> (- x, - y, - z, - w))"

definition vabs :: "vec3 \<Rightarrow> vec3" where
  "vabs a = (case a of (ax, ay, az) \<Rightarrow> (\<bar>ax\<bar>, \<bar>ay\<bar>, \<bar>az\<bar>))"

definition vmin :: "vec3 \<Rightarrow> vec3 \<Rightarrow> vec3" where
  "vmin a b = (case a of (ax, ay, az) \<Rightarrow> case b of (bx, by, bz) \<Rightarrow> (min ax bx, min ay by, min az bz))"

definition vmax :: "vec3 \<Rightarrow> vec3 \<Rightarrow> vec3" where
  "vmax a b = (case a of (ax, ay, az) \<Rightarrow> case b of (bx, by, bz) \<Rightarrow> (max ax bx, max ay by, max az bz))"

definition dot3 :: "vec3 \<Rightarrow> vec3 \<Rightarrow> real" where
  "dot3 a b = (case a of (ax, ay, az) \<Rightarrow> case b of (bx, by, bz) \<Rightarrow> ax * bx + ay * by + az * bz)"

definition length3 :: "vec3 \<Rightarrow> real" where
  "length3 a = sqrt (dot3 a a)"

definition fast_normalize :: "vec3 \<Rightarrow> vec3" where
  "fast_normalize a = smul (1 / length3 a) a"

definition of_int3 :: "int3 \<Rightarrow> vec3" where
  "of_int3 c = (case c of (i, j, k) \<Rightarrow> (real_of_int i, real_of_int j, real_of_int k))"

definition clamp_f :: "real \<Rightarrow> real \<Rightarrow> real \<Rightarrow> real" where
  "clamp_f x lo hi = min (max x lo) hi"

definition clamp_i :: "int \<Rightarrow> int \<Rightarrow> int \<Rightarrow> int" where
  "clamp_i x lo hi = min (max x lo) hi"

subsection \<open>The counter-based hash of random.cl\<close>

definition ParallelRNG :: "uint \<Rightarrow> uint" where
  "ParallelRNG x =
     (let v1 = (x XOR 61) XOR drop_bit 16 x;
          v2 = v1 * 9;
          v3 = v2 XOR push_bit 4 v2;
          v4 = v3 * 0x27d4eb2d;
          v5 = v4 XOR drop_bit 15 v4
      in v5)"

definition ParallelRNG2 :: "uint \<Rightarrow> uint \<Rightarrow> uint" where
  "ParallelRNG2 x y = ParallelRNG (y XOR ParallelRNG x)"

definition ParallelRNG3 :: "uint \<Rightarrow> uint \<Rightarrow> uint \<Rightarrow> uint" where
  "ParallelRNG3 x y z = ParallelRNG (z XOR ParallelRNG (y XOR ParallelRNG x))"

definition UINT_MAX :: nat where
  "UINT_MAX = 4294967295"

definition mapUintFloat :: "uint \<Rightarrow> real" where
  "mapUintFloat v = real (unat v) / real UINT_MAX"

subsection \<open>Images and kernel arguments of one dispatch\<close>

text \<open>
  \<open>volLinear\<close> and \<open>volNearest\<close> are the volume read through \<open>linearSmp\<close> and
  \<open>nearestSmp\<close> at normalised coordinates, \<open>volTexel\<close> the read through
  \<open>nearestIntSmp\<close> at voxel coordinates, \<open>volBrick\<close> the sampler-less read of a brick's
  (min, max) pair, \<open>tffData\<close> the transfer function read through \<open>linearSmp\<close> and
  \<open>tffPrefix\<close> its prefix sum read through the sampler of the revision (\<open>linearSmp\<close> in
  the flat one, \<open>nearestSmp\<close> in the grouped one). \<open>calcAO\<close> stands for the Monte-Carlo occlusion estimate of
  the kernel function of that name, a function of the surface normal and the position for
  a fixed volume, transfer function and generator state.
\<close>

record scene =
  volRes :: int3
  volOrder :: channel_order
  volLinear :: "vec3 \<Rightarrow> vec4"
  volNearest :: "vec3 \<Rightarrow> vec4"
  volTexel :: "int3 \<Rightarrow> real"
  bricksRes :: int3
  volBrick :: "int3 \<Rightarrow> real \<times> real"
  tffData :: "real \<Rightarrow> vec4"
  tffPrefix :: "real \<Rightarrow> uint"
  calcAO :: "vec3 \<Rightarrow> vec3 \<Rightarrow> real"

subsection \<open>Geometry helpers\<close>

definition in_volume :: "vec3 \<Rightarrow> bool" where
  "in_volume pos = (case pos of (x, y, z) \<Rightarrow> max \<bar>x\<bar> (max \<bar>y\<bar> \<bar>z\<bar>) < 1)"

text \<open>
  The ray-box intersection divides by the components of the ray direction. For a ray
  parallel to an axis \<open>native_divide(1.0f, 0.0f)\<close> is \<open>+inf\<close>, its products with the plane
  offsets are \<open>+inf\<close>, \<open>-inf\<close> or (for an offset of zero) NaN, and the comparisons that
  follow treat them as IEEE 754 does. These values are kept: \<open>xreal\<close> is a \<open>float\<close> that is
  finite, infinite or NaN. \<open>min(x, y)\<close> is \<open>y < x ? y : x\<close> and \<open>max(x, y)\<close> is
  \<open>x < y ? y : x\<close>, with every comparison on a NaN false; OpenCL leaves \<open>min\<close> and \<open>max\<close> of
  infinite arguments to the implementation, and the model takes the comparison that defines
  them. (The model has one zero; a direction component of \<open>-0.0f\<close> would give \<open>-inf\<close>.)
\<close>

datatype xreal = NInf | Fin real | PInf | NaN

definition native_recip :: "real \<Rightarrow> xreal" where
  "native_recip d = (if d = 0 then PInf else Fin (1 / d))"

definition xscale :: "xreal \<Rightarrow> real \<Rightarrow> xreal" where
  "xscale a r =
     (case a of
        Fin x \<Rightarrow> Fin (x * r)
      | PInf \<Rightarrow> (if r > 0 then PInf else if r < 0 then NInf else NaN)
      | NInf \<Rightarrow> (if r > 0 then NInf else if r < 0 then PInf else NaN)
      | NaN \<Rightarrow> NaN)"

fun xless :: "xreal \<Rightarrow> xreal \<Rightarrow> bool" where
  "xless NaN b = False"
| "xless a NaN = False"
| "xless a NInf = False"
| "xless NInf b = True"
| "xless PInf b = False"
| "xless (Fin a) PInf = True"
| "xless (Fin a) (Fin b) = (a < b)"

definition xmin :: "xreal \<Rightarrow> xreal \<Rightarrow> xreal" where
  "xmin x y = (if xless y x then y else x)"

definition xmax :: "xreal \<Rightarrow> xreal \<Rightarrow> xreal" where
  "xmax x y = (if xless x y then y else x)"

text \<open>The planes of one axis: the smaller and the larger of the two ray parameters.\<close>

definition slab :: "real \<Rightarrow> real \<Rightarrow> real \<Rightarrow> real \<Rightarrow> xreal \<times> xreal" where
  "slab lower upper orig dir =
     (let invRay = native_recip dir;
          tBot = xscale invRay (lower - orig);
          tTop = xscale invRay (upper - orig)
      in (xmin tTop tBot, xmax tTop tBot))"

definition intersectBox :: "vec3 \<Rightarrow> vec3 \<Rightarrow> bool \<times> xreal \<times> xreal" where
  "intersectBox rayOrig rayDir =
     (case rayOrig of (ox, oy, oz) \<Rightarrow> case rayDir of (dx, dy, dz) \<Rightarrow>
      case slab (- 1) 1 ox dx of (nx, mx) \<Rightarrow>
      case slab (- 1) 1 oy dy of (ny, my) \<Rightarrow>
      case slab (- 1) 1 oz dz of (nz, mz) \<Rightarrow>
        (let maxTmin = xmax (xmax nx ny) (xmax nx nz);
             minTmax = xmin (xmin mx my) (xmin mx mz)
         in (xless maxTmin minTmax, maxTmin, minTmax)))"

subsection \<open>Gradients and shading\<close>

definition voxel_offset :: "scene \<Rightarrow> vec3" where
  "voxel_offset sc = vdiv (splat 1) (of_int3 (volRes sc))"

definition gradient_of :: "vec3 \<Rightarrow> vec3 \<Rightarrow> vec4" where
  "gradient_of s1 s2 =
     (let normal0 = fast_normalize (vsub s2 s1);
          normal = (if length3 normal0 = 0 then splat (57735 / 100000) else normal0)
      in case normal of (x, y, z) \<Rightarrow> (x, y, z, length3 (vsub s2 s1)))"

definition gradientCentralDiff :: "scene \<Rightarrow> vec3 \<Rightarrow> vec4" where
  "gradientCentralDiff sc pos =
     (case voxel_offset sc of (ox, oy, oz) \<Rightarrow>
        gradient_of
          (vx (volLinear sc (vadd pos (- ox, 0, 0))),
           vx (volLinear sc (vadd pos (0, - oy, 0))),
           vx (volLinear sc (vadd pos (0, 0, - oz))))
          (vx (volLinear sc (vadd pos (ox, 0, 0))),
           vx (volLinear sc (vadd pos (0, oy, 0))),
           vx (volLinear sc (vadd pos (0, 0, oz)))))"

definition gradientCentralDiffTff :: "scene \<Rightarrow> vec3 \<Rightarrow> vec4" where
  "gradientCentralDiffTff sc pos =
     (case voxel_offset sc of (ox, oy, oz) \<Rightarrow>
        gradient_of
          (vw (tffData sc (vx (volLinear sc (vadd pos (- ox, 0, 0))))),
           vw (tffData sc (vx (volLinear sc (vadd pos (0, - oy, 0))))),
           vw (tffData sc (vx (volLinear sc (vadd pos (0, 0, - oz))))))
          (vw (tffData sc (vx (volLinear sc (vadd pos (ox, 0, 0))))),
           vw (tffData sc (vx (volLinear sc (vadd pos (0, oy, 0))))),
           vw (tffData sc (vx (volLinear sc (vadd pos (0, 0, oz)))))))"

definition sobelWeights :: "real list list list list" where
  "sobelWeights =
     [[[[-1, -2, -1], [-2, -4, -2], [-1, -2, -1]],
       [[0, 0, 0], [0, 0, 0], [0, 0, 0]],
       [[1, 2, 1], [2, 4, 2], [1, 2, 1]]],
      [[[-1, -2, -1], [0, 0, 0], [1, 2, 1]],
       [[-2, -4, -2], [0, 0, 0], [2, 4, 2]],
       [[-1, -2, -1], [0, 0, 0], [1, 2, 1]]],
      [[[-1, 0, 1], [-2, 0, 2], [-1, 0, 1]],
       [[-2, 0, 2], [-4, 0, 4], [-2, 0, 2]],
       [[-1, 0, 1], [-2, 0, 2], [-1, 0, 1]]]]"

definition sobel_sum :: "scene \<Rightarrow> vec3 \<Rightarrow> nat \<Rightarrow> real" where
  "sobel_sum sc pos dir =
     (\<Sum>i\<leftarrow>[0, 1, 2]. \<Sum>j\<leftarrow>[0, 1, 2]. \<Sum>k\<leftarrow>[0, 1, 2].
        sobelWeights ! dir ! i ! j ! k *
        vx (volLinear sc (vadd pos (vmul (voxel_offset sc)
              (real i - 1, real j - 1, real k - 1)))))"

definition gradientSobel :: "scene \<Rightarrow> vec3 \<Rightarrow> vec4" where
  "gradientSobel sc pos =
     (let g = smul (1 / 27) (sobel_sum sc pos 0, sobel_sum sc pos 1, sobel_sum sc pos 2);
          w = length3 g;
          g1 = (if w = 0 then splat 1 else g)
      in case fast_normalize g1 of (x, y, z) \<Rightarrow> (x, y, z, w))"

definition specularBlinnPhong :: "vec3 \<Rightarrow> real \<Rightarrow> vec3 \<Rightarrow> vec3 \<Rightarrow> vec3 \<Rightarrow> vec3 \<Rightarrow> vec3" where
  "specularBlinnPhong lightColor specularExp materialColor normal toLightDir toCameraDir =
     (let h = vadd toCameraDir toLightDir
      in if dot3 h h < 1 / 1000000 then splat 0
         else smul (max (dot3 normal (fast_normalize h)) 0 powr specularExp)
                (vmul materialColor lightColor))"

definition illumination :: "vec3 \<Rightarrow> vec3 \<Rightarrow> vec3 \<Rightarrow> vec3" where
  "illumination color toLightDir n =
     (let l = fast_normalize toLightDir;
          amb = smul (2 / 10) color;
          diff = smul (max 0 (dot3 n l) * (8 / 10)) color;
          spec = smul (2 / 10) (specularBlinnPhong (splat 1) 40 (splat 1) n l toLightDir)
      in vadd (vadd amb diff) spec)"

definition celShading :: "vec3 \<Rightarrow> vec3 \<Rightarrow> vec3 \<Rightarrow> vec3" where
  "celShading color toLightDir n =
     (let intensity = max 0 (dot3 n (fast_normalize toLightDir))
      in if intensity > 95 / 100 then color
         else if intensity > 5 / 10 then smul (6 / 10) color
         else if intensity > 25 / 100 then smul (4 / 10) color
         else smul (2 / 10) color)"

definition checkBoundingBox :: "vec3 \<Rightarrow> vec3 \<Rightarrow> real \<times> real \<Rightarrow> bool" where
  "checkBoundingBox pos voxLen bound =
     (case pos of (px, py, pz) \<Rightarrow> case voxLen of (lx, ly, lz) \<Rightarrow> case bound of (b0, b1) \<Rightarrow>
        (px < lx \<and> pz < b0 + lz) \<or>
        (px < lx \<and> py < ly) \<or>
        (py < ly \<and> pz < b0 + lz) \<or>
        (px > 1 - lx \<and> pz < b0 + lz) \<or>
        (py > 1 - ly \<and> pz < b0 + lz) \<or>
        (px > 1 - lx \<and> pz > b1 - lz) \<or>
        (py > 1 - ly \<and> pz > b1 - lz) \<or>
        (px < lx \<and> pz > b1 - lz) \<or>
        (py < ly \<and> pz > b1 - lz) \<or>
        (px > 1 - lx \<and> py < ly) \<or>
        (px > 1 - lx \<and> py > 1 - ly) \<or>
        (px < lx \<and> py > 1 - ly))"

subsection \<open>The path tracer\<close>

definition get_extinction :: "real \<Rightarrow> vec3 \<Rightarrow> scene \<Rightarrow> real" where
  "get_extinction mext pos sc =
     mext * vx (volLinear sc (vadd (smul (1 / 2) pos) (splat (1 / 2))))"

text \<open>
  The outcome of \<open>sample_interaction\<close>: its return value, the two values it passes back
  through pointers, and (for the statements about the loop) the last position tried and the
  final value of the iteration counter \<open>cnt\<close>.
\<close>

record interaction =
  is_hit :: bool
  ray_pos_out :: vec3
  color_out :: vec4
  last_pos :: vec3
  cnt_out :: uint

text \<open>
  The do-while loop of \<open>sample_interaction\<close>, from the values of \<open>t\<close> and \<open>cnt\<close> at the
  top of the body. It recurses only while the incremented counter is at most 512.
\<close>

function sample_loop ::
  "scene \<Rightarrow> uint \<Rightarrow> vec3 \<Rightarrow> vec3 \<Rightarrow> real \<Rightarrow> vec4 \<Rightarrow> real \<Rightarrow> uint \<Rightarrow> interaction"
where
  "sample_loop sc rand ray_pos ray_dir mext colorIn t cnt =
     (let cnt1 = cnt + 1;
          rand2 = ParallelRNG rand;
          t1 = t - ln (1 - mapUintFloat rand2) / mext;
          pos = vadd ray_pos (smul t1 ray_dir)
      in if \<not> in_volume pos
         then \<lparr>is_hit = False, ray_pos_out = ray_pos, color_out = colorIn,
               last_pos = pos, cnt_out = cnt1\<rparr>
         else
           let sample = vw (tffData sc (get_extinction mext pos sc / mext))
           in if cnt1 > 512
              then \<lparr>is_hit = False, ray_pos_out = ray_pos, color_out = colorIn,
                    last_pos = pos, cnt_out = cnt1\<rparr>
              else if sample < mapUintFloat rand
              then sample_loop sc rand ray_pos ray_dir mext colorIn t1 cnt1
              else \<lparr>is_hit = True, ray_pos_out = pos, color_out = tffData sc sample,
                    last_pos = pos, cnt_out = cnt1\<rparr>)"
  by pat_completeness auto
termination
proof (relation "measure (\<lambda>(sc, rand, ray_pos, ray_dir, mext, colorIn, t, cnt). unat (512 - cnt))")
  show "wf (measure (\<lambda>(sc, rand, ray_pos, ray_dir, mext, colorIn, t, cnt). unat (512 - cnt)))"
    by simp
next
  fix sc :: scene and rand :: uint and ray_pos ray_dir :: vec3 and mext :: real
    and colorIn :: vec4 and t :: real and cnt cnt1 :: uint and rand2 :: uint and t1 :: real
    and pos :: vec3 and sample :: real
  assume c: "cnt1 = cnt + 1" and le: "\<not> 512 < cnt1"
  from le have u: "cnt1 \<le> 512" by simp
  have d: "unat (512 - cnt1) = unat (512 :: uint) - unat cnt1"
    by (rule unat_sub [OF u])
  then have "unat (512 - cnt1) + unat (1 :: uint) < 2 ^ LENGTH(32)" by simp
  then have "unat ((512 - cnt1) + 1) = unat (512 - cnt1) + unat (1 :: uint)"
    by (rule unat_add_lem [THEN iffD1])
  moreover have "(512 - cnt1) + 1 = 512 - cnt" unfolding c by simp
  ultimately have "unat (512 - cnt1) < unat (512 - cnt)" by simp
  then show "((sc, rand, ray_pos, ray_dir, mext, colorIn, t1, cnt1),
              (sc, rand, ray_pos, ray_dir, mext, colorIn, t, cnt))
             \<in> measure (\<lambda>(sc, rand, ray_pos, ray_dir, mext, colorIn, t, cnt). unat (512 - cnt))"
    by simp
qed

declare sample_loop.simps [simp del]

definition sample_interaction ::
  "scene \<Rightarrow> uint \<Rightarrow> vec3 \<Rightarrow> vec3 \<Rightarrow> real \<Rightarrow> vec4 \<Rightarrow> interaction" where
  "sample_interaction sc rand ray_pos ray_dir mext colorIn =
     sample_loop sc rand ray_pos ray_dir mext colorIn 0 0"

definition scatter_ray :: "scene \<Rightarrow> vec3 \<Rightarrow> vec3 \<Rightarrow> vec4 \<Rightarrow> vec3" where
  "scatter_ray sc ray_pos ray_dir color =
     (let samplePos = vadd (smul (1 / 2) ray_pos) (splat (1 / 2));
          gradient = vneg4 (gradientCentralDiffTff sc samplePos)
      in illumination (xyz color) (vneg ray_dir) (xyz gradient))"

text \<open>
  \<open>trace_volume\<close>: its loop body returns or breaks in the first pass, so the function is
  one call of \<open>sample_interaction\<close> followed by the shading of the hit, with weight 1.
\<close>

definition trace_volume :: "scene \<Rightarrow> uint \<Rightarrow> vec3 \<Rightarrow> vec3 \<Rightarrow> real \<Rightarrow> real \<Rightarrow> vec3" where
  "trace_volume sc rand ray_pos ray_dir t0 mext =
     (let ray_pos0 = vadd ray_pos (smul t0 ray_dir);
          i = sample_interaction sc rand ray_pos0 ray_dir mext (1, 1, 1, 1)
      in if is_hit i
         then smul 1 (scatter_ray sc (ray_pos_out i) ray_dir (color_out i))
         else splat 1)"

subsection \<open>Progressive accumulation\<close>

text \<open>
  The accumulation of the path-traced colour, per channel
  \<open>prevCol + (col - prevCol) / (float3)(iteration + 1)\<close> with \<open>iteration + 1\<close> computed in
  \<open>uint\<close>. When that sum wraps to 0 the quotient is not a finite number; the model returns
  \<open>None\<close> for it.
\<close>

definition accumulate :: "uint \<Rightarrow> vec3 \<Rightarrow> vec3 \<Rightarrow> vec3 option" where
  "accumulate iter prevCol col =
     (if iter = 0 then Some col
      else if iter + 1 = 0 then None
      else Some (vadd prevCol (smul (1 / real (unat (iter + 1))) (vsub col prevCol))))"

definition tone_map :: "vec3 \<Rightarrow> vec3" where
  "tone_map col =
     (let f = (\<lambda>c. c * ((1 + c * (1 / 10)) / (1 + c)));
          g = (\<lambda>c. min (max c 0 powr (1 / (22 / 10))) 1)
      in case col of (r, g0, b) \<Rightarrow> (g (f r), g (f g0), g (f b)))"

text \<open>What one work-item writes: its pixel of the output image and of the accumulation buffer.\<close>

text \<open>
  The values are those handed to \<open>write_imagef\<close>; the output and accumulation images
  created by the host store them with 8 bits per channel.
\<close>

record pixel_writes =
  outImg :: "vec4 option"
  outAccumulate :: "vec4 option"

definition rgb1 :: "vec3 \<Rightarrow> vec4" where
  "rgb1 c = (case c of (r, g, b) \<Rightarrow> (r, g, b, 1))"

text \<open>
  The kernel \<open>volumeRender\<close> for one pixel inside the output image. The ray set-up from the
  view matrix is represented by the ray it yields (\<open>camPos\<close>, \<open>rayDir\<close>), the nine reads
  of the hit image by their sum \<open>lastHit\<close>, the read of the accumulation image by
  \<open>prevCol\<close>. The kernel file defines \<open>PATH_TRACE\<close> immediately before testing it, so
  every ray that hits the volume is path traced with extinction 80 and the work-item returns
  from that block; \<open>None\<close> stands for a pixel whose colour is not a finite number (an entry
  distance that is infinite or NaN, or a division by an iteration count that has wrapped to
  zero).
\<close>

definition volumeRender ::
  "scene \<Rightarrow> rendering_params \<Rightarrow> uint \<times> uint \<Rightarrow> uint \<Rightarrow> vec3 \<Rightarrow> vec3 \<Rightarrow> vec3 \<Rightarrow>
   pixel_writes option" where
  "volumeRender sc rp texCoords lastHit prevCol camPos rayDir =
     (if imgEss rp \<noteq> 0 \<and> lastHit = 0
      then Some \<lparr>outImg = Some (if showEss rp \<noteq> 0
                                then (case backgroundColor rp of (r, g, b, a) \<Rightarrow>
                                        (1 - r, 1 - g, 1 - b, 1 - a))
                                else backgroundColor rp),
                 outAccumulate = None\<rparr>
      else
        case intersectBox camPos rayDir of (hit, tnear, tfar) \<Rightarrow>
          if \<not> hit \<or> xless tfar (Fin 0)
          then Some \<lparr>outImg = Some (backgroundColor rp), outAccumulate = None\<rparr>
          else
            case tnear of
              Fin tn \<Rightarrow>
                (let random = ParallelRNG3 (fst texCoords) (snd texCoords) (seed rp);
                     col = trace_volume sc random camPos rayDir tn 80
                 in case accumulate (iteration rp) prevCol col of
                      None \<Rightarrow> None
                    | Some acc \<Rightarrow>
                        Some \<lparr>outImg = Some (rgb1 (tone_map acc)),
                              outAccumulate = Some (rgb1 acc)\<rparr>)
            | _ \<Rightarrow> None)"

section \<open>Device side: the kernel of the grouped-argument revision\<close>

text \<open>
  The revision of the kernel source whose \<open>volumeRender\<close> takes the structs
  \<open>camera_params\<close>, \<open>rendering_params\<close>, \<open>raycast_params\<close> and \<open>pathtrace_params\<close>; it is
  the kernel that the host functions of the first section launch. The technique is chosen
  at run time (\<open>render.technique\<close>: 0 ray casting, 1 path tracing), the volume is clipped
  to the box of the camera parameters, and both techniques accumulate progressively.
  The helpers that this revision shares unchanged with the flat one (hashes, gradients,
  \<open>specularBlinnPhong\<close>, \<open>celShading\<close>, \<open>checkBoundingBox\<close>, \<open>in_volume\<close>) are the
  definitions above. A function that differs between the two revisions has the suffix
  \<open>_grouped\<close> here.
\<close>

subsection \<open>Helpers that differ from the flat revision\<close>

definition intersectBBox :: "vec3 \<Rightarrow> vec3 \<Rightarrow> vec3 \<Rightarrow> vec3 \<Rightarrow> bool \<times> xreal \<times> xreal" where
  "intersectBBox rayOrig rayDir lower upper =
     (case rayOrig of (ox, oy, oz) \<Rightarrow> case rayDir of (dx, dy, dz) \<Rightarrow>
      case lower of (lx, ly, lz) \<Rightarrow> case upper of (ux, uy, uz) \<Rightarrow>
      case slab lx ux ox dx of (nx, mx) \<Rightarrow>
      case slab ly uy oy dy of (ny, my) \<Rightarrow>
      case slab lz uz oz dz of (nz, mz) \<Rightarrow>
        (let maxTmin = xmax (xmax nx ny) (xmax nx nz);
             minTmax = xmin (xmin mx my) (xmin mx mz)
         in (xless maxTmin minTmax, maxTmin, minTmax)))"

definition illumination_grouped :: "vec3 \<Rightarrow> vec3 \<Rightarrow> vec3 \<Rightarrow> vec3" where
  "illumination_grouped color toLightDir n =
     (let l = fast_normalize toLightDir;
          amb = smul (15 / 100) color;
          diff = smul (max 0 (dot3 n l) * (7 / 10)) color;
          spec = smul (15 / 100) (specularBlinnPhong (splat 1) 40 (splat 1) n l toLightDir)
      in vadd (vadd amb diff) spec)"

subsection \<open>The path tracer of this revision\<close>

definition get_extinction_grouped :: "vec3 \<Rightarrow> scene \<Rightarrow> real" where
  "get_extinction_grouped pos sc = vx (volLinear sc (vadd (smul (1 / 2) pos) (splat (1 / 2))))"

text \<open>
  The do-while loop of \<open>sample_interaction\<close>, from the values of \<open>t\<close> and \<open>cnt\<close> at the
  top of the body; the colour looked up for the sample decides on its acceptance.
\<close>

function sample_loop_grouped ::
  "scene \<Rightarrow> uint \<Rightarrow> vec3 \<Rightarrow> vec3 \<Rightarrow> real \<Rightarrow> vec4 \<Rightarrow> real \<Rightarrow> uint \<Rightarrow> interaction"
where
  "sample_loop_grouped sc rand ray_pos ray_dir mext colorIn t cnt =
     (let cnt1 = cnt + 1;
          rand2 = ParallelRNG rand;
          t1 = t - ln (1 - mapUintFloat rand2) / mext;
          pos = vadd ray_pos (smul t1 ray_dir)
      in if \<not> in_volume pos
         then \<lparr>is_hit = False, ray_pos_out = ray_pos, color_out = colorIn,
               last_pos = pos, cnt_out = cnt1\<rparr>
         else
           let color = tffData sc (get_extinction_grouped pos sc)
           in if cnt1 > 512
              then \<lparr>is_hit = False, ray_pos_out = ray_pos, color_out = colorIn,
                    last_pos = pos, cnt_out = cnt1\<rparr>
              else if vw color < mapUintFloat rand
              then sample_loop_grouped sc rand ray_pos ray_dir mext colorIn t1 cnt1
              else \<lparr>is_hit = True, ray_pos_out = pos, color_out = color,
                    last_pos = pos, cnt_out = cnt1\<rparr>)"
  by pat_completeness auto
termination
proof (relation "measure (\<lambda>(sc, rand, ray_pos, ray_dir, mext, colorIn, t, cnt). unat (512 - cnt))")
  show "wf (measure (\<lambda>(sc, rand, ray_pos, ray_dir, mext, colorIn, t, cnt). unat (512 - cnt)))"
    by simp
next
  fix sc :: scene and rand :: uint and ray_pos ray_dir :: vec3 and mext :: real
    and colorIn :: vec4 and t :: real and cnt cnt1 :: uint and rand2 :: uint and t1 :: real
    and pos :: vec3 and color :: vec4
  assume c: "cnt1 = cnt + 1" and le: "\<not> 512 < cnt1"
  from le have u: "cnt1 \<le> 512" by simp
  have d: "unat (512 - cnt1) = unat (512 :: uint) - unat cnt1"
    by (rule unat_sub [OF u])
  then have "unat (512 - cnt1) + unat (1 :: uint) < 2 ^ LENGTH(32)" by simp
  then have "unat ((512 - cnt1) + 1) = unat (512 - cnt1) + unat (1 :: uint)"
    by (rule unat_add_lem [THEN iffD1])
  moreover have "(512 - cnt1) + 1 = 512 - cnt" unfolding c by simp
  ultimately have "unat (512 - cnt1) < unat (512 - cnt)" by simp
  then show "((sc, rand, ray_pos, ray_dir, mext, colorIn, t1, cnt1),
              (sc, rand, ray_pos, ray_dir, mext, colorIn, t, cnt))
             \<in> measure (\<lambda>(sc, rand, ray_pos, ray_dir, mext, colorIn, t, cnt). unat (512 - cnt))"
    by simp
qed

declare sample_loop_grouped.simps [simp del]

definition sample_interaction_grouped ::
  "scene \<Rightarrow> uint \<Rightarrow> vec3 \<Rightarrow> vec3 \<Rightarrow> real \<Rightarrow> vec4 \<Rightarrow> interaction" where
  "sample_interaction_grouped sc rand ray_pos ray_dir mext colorIn =
     sample_loop_grouped sc rand ray_pos ray_dir mext colorIn 0 0"

definition get_dir_phase_function :: "uint \<Rightarrow> vec3" where
  "get_dir_phase_function rand =
     (let rand2 = ParallelRNG rand;
          phi = 2 * pi * mapUintFloat rand2;
          cos_theta = 1 - 2 * mapUintFloat (ParallelRNG rand2);
          sin_theta = sqrt (1 - cos_theta * cos_theta)
      in (cos phi * sin_theta, sin phi * sin_theta, cos_theta))"

definition length4 :: "vec4 \<Rightarrow> real" where
  "length4 v = (case v of (x, y, z, w) \<Rightarrow> sqrt (x * x + y * y + z * z + w * w))"

definition mix4 :: "vec4 \<Rightarrow> vec4 \<Rightarrow> real \<Rightarrow> vec4" where
  "mix4 a b k =
     (case a of (ax, ay, az, aw) \<Rightarrow> case b of (bx, by, bz, bw) \<Rightarrow>
        (ax + (bx - ax) * k, ay + (by - ay) * k, az + (bz - az) * k, aw + (bw - aw) * k))"

text \<open>
  \<open>trace_volume\<close>: one free-flight sample along the primary ray; at a scatter event the
  colour is shaded (high gradient) or mixed with a second sample along a random direction
  (low gradient), and a shadow ray towards the light darkens it.
\<close>

definition trace_volume_grouped ::
  "scene \<Rightarrow> uint \<Rightarrow> vec3 \<Rightarrow> vec3 \<Rightarrow> real \<Rightarrow> real \<Rightarrow> vec4 \<Rightarrow> vec3" where
  "trace_volume_grouped sc rand ray_pos ray_dir t0 mext backgroundCol =
     (let ray_pos0 = vadd ray_pos (smul t0 ray_dir);
          i = sample_interaction_grouped sc rand ray_pos0 ray_dir mext backgroundCol
      in if is_hit i
         then
           let light_dir = vadd (vneg ray_dir) (1 / 2, 1 / 2, 0);
               samplePos = vadd (smul (1 / 2) (ray_pos_out i)) (splat (1 / 2));
               gradient = vneg4 (gradientCentralDiffTff sc samplePos);
               color =
                 (if length4 gradient > 1 / 2
                  then with_xyz (color_out i)
                         (illumination_grouped (xyz (color_out i)) light_dir (xyz gradient))
                  else
                    let ray_dir_scatter = get_dir_phase_function rand;
                        j = sample_interaction_grouped sc rand (ray_pos_out i) ray_dir_scatter
                              mext backgroundCol
                    in mix4 (color_out i) (color_out j) (1 / 2));
               k = sample_interaction_grouped sc rand (ray_pos_out i) light_dir mext backgroundCol;
               w = (if is_hit k then 6 / 10 else 1)
           in smul w (xyz color)
         else smul 1 (xyz (color_out i)))"

subsection \<open>The ray caster: set-up, sampling and compositing\<close>

definition ERT_THRESHOLD :: real where
  "ERT_THRESHOLD = 98 / 100"

definition FLT_EPSILON :: real where
  "FLT_EPSILON = 1 / 2 ^ 23"

definition FLT_MAX :: real where
  "FLT_MAX = 340282346638528859811704183484516925440"

text \<open>The values fixed before the loops.\<close>

record ray =
  ray_camPos :: vec3
  ray_rayDir :: vec3
  ray_envirCol :: vec4
  ray_tnear :: real
  ray_tfar :: real
  ray_sampleDist :: real
  ray_stepSize :: real
  ray_offset :: real
  ray_refSamplingInterval :: real
  ray_voxLen :: vec3

text \<open>The variables the loops update.\<close>

record ray_state =
  r_t :: real
  r_alpha :: real
  r_result :: vec4
  r_pos :: vec3
  r_density :: real
  r_tfColor :: vec4
  r_opacity :: real

text \<open>
  Illumination and contour shading of a scalar sample whose transfer-function colour is
  \<open>tfColor0\<close> (the body of the \<open>CLK_R\<close> branch after the table lookup). In the \<open>switch\<close>
  on the illumination type, case 3 falls through to \<open>default\<close>, which only breaks.
\<close>

definition shade_density ::
  "scene \<Rightarrow> rendering_params \<Rightarrow> raycast_params \<Rightarrow> vec3 \<Rightarrow> vec3 \<Rightarrow> vec4 \<Rightarrow> vec4" where
  "shade_density sc rp rc rayDir pos tfColor0 =
     (let lit =
            (if vw tfColor0 > 1 / 10 \<and> illumType rp \<noteq> 0
             then
               let gradient =
                     (if illumType rp = 1 then vneg4 (gradientCentralDiff sc pos)
                      else if illumType rp = 2 then vneg4 (gradientCentralDiffTff sc pos)
                      else if illumType rp = 3 then vneg4 (gradientSobel sc pos)
                      else (0, 0, 0, 0))
               in if illumType rp = 5
                  then (let g5 = vneg4 (gradientCentralDiff sc pos)
                        in (with_xyz tfColor0 (celShading (xyz tfColor0) (vneg rayDir) (xyz g5)), g5))
                  else (with_xyz tfColor0
                          (illumination_grouped (xyz tfColor0) (vneg rayDir) (xyz gradient)),
                        gradient)
             else (tfColor0, (0, 0, 0, 0)))
      in case lit of (tfColor1, gradient1) \<Rightarrow>
           if vw tfColor1 > 1 / 10 \<and> contours rc \<noteq> 0
           then
             let gradient2 = (if illumType rp = 0 then vneg4 (gradientCentralDiff sc pos)
                              else gradient1)
             in with_xyz tfColor1 (smul \<bar>dot3 rayDir (xyz gradient2)\<bar> (xyz tfColor1))
           else tfColor1)"

text \<open>
  One sample: position, density and the colour \<open>tfColor\<close> handed to the compositing step,
  after the subtraction from the environment colour and the optional depth cue. For a
  channel order other than \<open>R\<close>, \<open>RGBA\<close> and \<open>RG\<close> no branch assigns \<open>tfColor\<close>, which
  keeps the value of the previous sample.
\<close>

definition ray_sample ::
  "scene \<Rightarrow> rendering_params \<Rightarrow> raycast_params \<Rightarrow> ray \<Rightarrow> ray_state \<Rightarrow> ray_state" where
  "ray_sample sc rp rc ry s =
     (let pos = vadd (smul (1 / 2)
                   (vadd (ray_camPos ry) (smul (r_t s - ray_offset ry) (ray_rayDir ry))))
                 (splat (1 / 2));
          rd = (\<lambda>p. if useLinear rp \<noteq> 0 then volLinear sc p else volNearest sc p);
          dc = (if illumType rp = 4
                then (r_density s, tffData sc (- vw (vneg4 (gradientCentralDiff sc pos))))
                else if volOrder sc = CL_R
                then (let density = vx (rd pos)
                      in (density, shade_density sc rp rc (ray_rayDir ry) pos (tffData sc density)))
                else if volOrder sc = CL_RGBA
                then (r_density s, rd pos)
                else if volOrder sc = CL_RG
                then (let c = rd pos; density = \<bar>vy c\<bar>
                      in (density, (vx c, 0, vz c, vw (tffData sc density))))
                else (r_density s, r_tfColor s))
      in case dc of (density, tfColor) \<Rightarrow>
           let tfColor1 = with_xyz tfColor (vsub (xyz (ray_envirCol ry)) (xyz tfColor));
               tfColor2 = (if aerial rc \<noteq> 0
                           then with_w tfColor1
                                  (vw tfColor1 * (1 - (r_t s - ray_tnear ry) / ray_sampleDist ry))
                           else tfColor1)
           in s\<lparr>r_pos := pos, r_density := density, r_tfColor := tfColor2\<rparr>)"

text \<open>
  The front-to-back compositing step. \<open>native_powr\<close> is defined for a base that is not
  negative; for a sample alpha above 1 the model has the value of \<open>powr\<close> in HOL.
\<close>

definition composite :: "ray \<Rightarrow> ray_state \<Rightarrow> ray_state" where
  "composite ry s =
     (let opacity = 1 - (1 - vw (r_tfColor s)) powr ray_refSamplingInterval ry;
          result = with_xyz (r_result s)
                     (vsub (xyz (r_result s)) (smul (opacity * (1 - r_alpha s)) (xyz (r_tfColor s))));
          alpha = r_alpha s + opacity * (1 - r_alpha s)
      in s\<lparr>r_opacity := opacity, r_result := result, r_alpha := alpha\<rparr>)"

definition ambient :: "scene \<Rightarrow> ray_state \<Rightarrow> ray_state" where
  "ambient sc s =
     (let n = xyz (vneg4 (gradientCentralDiff sc (r_pos s)));
          ao = calcAO sc n (r_pos s)
      in s\<lparr>r_result := with_xyz (r_result s) (smul (1 - (1 / 2) * ao) (xyz (r_result s)))\<rparr>)"

text \<open>
  The standard ray-casting loop \<open>while (t < t_exit)\<close>. A loop over floats has no
  structural bound, so the model counts iterations down from a fuel argument and returns
  \<open>None\<close> when it runs out.
\<close>

fun ray_loop ::
  "nat \<Rightarrow> scene \<Rightarrow> rendering_params \<Rightarrow> raycast_params \<Rightarrow> ray \<Rightarrow> real \<Rightarrow> ray_state \<Rightarrow>
   ray_state option" where
  "ray_loop 0 sc rp rc ry t_exit s = None"
| "ray_loop (Suc n) sc rp rc ry t_exit s =
     (if \<not> r_t s < t_exit then Some s
      else
        let s1 = composite ry (ray_sample sc rp rc ry s)
        in if r_t s1 \<ge> ray_tfar ry then Some s1
           else if r_alpha s1 > ERT_THRESHOLD
           then Some (if useAO rc \<noteq> 0 then ambient sc s1 else s1)
           else ray_loop n sc rp rc ry t_exit (s1\<lparr>r_t := r_t s1 + ray_stepSize ry\<rparr>))"

subsection \<open>Object-order empty-space skipping: the brick traversal\<close>

definition approxEq :: "real \<Rightarrow> real \<Rightarrow> bool" where
  "approxEq a b = (\<bar>a - b\<bar> < FLT_EPSILON)"

text \<open>
  The built-in \<open>select(a, b, c)\<close> on vectors takes \<open>b\<close> in the components where the most
  significant bit of \<open>c\<close> is set. Vector comparisons yield \<open>-1\<close> for true; \<open>approxEq3\<close>
  builds its \<open>uint3\<close> from scalar booleans, which are 1 for true.
\<close>

definition select_msb :: "'a \<Rightarrow> 'a \<Rightarrow> uint \<Rightarrow> 'a" where
  "select_msb a b c = (if bit c 31 then b else a)"

definition vec_true :: "bool \<Rightarrow> uint" where
  "vec_true b = (if b then - 1 else 0)"

definition map3 :: "('a \<Rightarrow> 'b) \<Rightarrow> 'a \<times> 'a \<times> 'a \<Rightarrow> 'b \<times> 'b \<times> 'b" where
  "map3 f v = (case v of (a, b, c) \<Rightarrow> (f a, f b, f c))"

definition zip3 :: "('a \<Rightarrow> 'b \<Rightarrow> 'c) \<Rightarrow> 'a \<times> 'a \<times> 'a \<Rightarrow> 'b \<times> 'b \<times> 'b \<Rightarrow> 'c \<times> 'c \<times> 'c" where
  "zip3 f v w = (case v of (a, b, c) \<Rightarrow> case w of (d, e, g) \<Rightarrow> (f a d, f b e, f c g))"

definition any3 :: "bool \<times> bool \<times> bool \<Rightarrow> bool" where
  "any3 v = (case v of (a, b, c) \<Rightarrow> a \<or> b \<or> c)"

record dda_consts =
  dda_step :: int3
  dda_deltaT :: vec3
  dda_exit :: int3
  dda_brickDia :: real

record dda =
  dda_cell :: int3
  dda_tv :: vec3

text \<open>
  The brick traversal divides by the components of \<open>raycast.brickRes\<close> and of the ray
  direction, and multiplies the quotients by the step, which is 0 along an axis the ray is
  parallel to. The definitions below are for the case that none of these six numbers is
  zero (\<open>dda_finite\<close>); otherwise infinities and NaN enter the traversal, and the kernel
  model ends with the outcome for results that are not finite.
\<close>

definition dda_finite :: "raycast_params \<Rightarrow> vec3 \<Rightarrow> bool" where
  "dda_finite rc rayDir =
     (case brickRes rc of (bx, by, bz) \<Rightarrow> case rayDir of (dx, dy, dz) \<Rightarrow>
        bx \<noteq> 0 \<and> by \<noteq> 0 \<and> bz \<noteq> 0 \<and> dx \<noteq> 0 \<and> dy \<noteq> 0 \<and> dz \<noteq> 0)"

definition brick_len :: "raycast_params \<Rightarrow> vec3" where
  "brick_len rc = vdiv (splat 1) (brickRes rc)"

definition inv_ray :: "vec3 \<Rightarrow> vec3" where
  "inv_ray rayDir =
     zip3 (\<lambda>i d. select_msb i FLT_MAX (of_bool_uint (approxEq d 0)))
       (vdiv (splat 1) rayDir) rayDir"

definition dda_setup :: "scene \<Rightarrow> raycast_params \<Rightarrow> ray \<Rightarrow> dda_consts" where
  "dda_setup sc rc ry =
     (let step = map3 (\<lambda>d. select_msb \<lfloor>sgn d\<rfloor> 1 (of_bool_uint (approxEq d 0))) (ray_rayDir ry);
          deltaT = vmul (of_int3 step) (vmul (smul 2 (brick_len rc)) (inv_ray (ray_rayDir ry)));
          exit0 = zip3 (*) step (bricksRes sc);
          exit1 = map3 (\<lambda>e. select_msb e (- 1) (vec_true (e < 0))) exit0
      in \<lparr>dda_step = step, dda_deltaT = deltaT, dda_exit = exit1,
           dda_brickDia = length3 (brick_len rc) * 2\<rparr>)"

definition dda_start :: "scene \<Rightarrow> raycast_params \<Rightarrow> ray \<Rightarrow> dda" where
  "dda_start sc rc ry =
     (let rayOrigCell = vsub (vadd (ray_camPos ry) (smul (ray_tnear ry) (ray_rayDir ry)))
                          (splat (- 1));
          cell = zip3 (\<lambda>c b. clamp_i c 0 (b - 1))
                   (map3 floor (vdiv rayOrigCell (smul 2 (brick_len rc)))) (bricksRes sc);
          next_cell = zip3 (\<lambda>c d. c - sint (vec_true (d \<ge> 0))) cell (ray_rayDir ry);
          tv = vadd (splat (ray_tnear ry))
                 (vmul (vsub (vmul (of_int3 next_cell) (smul 2 (brick_len rc))) rayOrigCell)
                    (inv_ray (ray_rayDir ry)))
      in \<lparr>dda_cell = cell, dda_tv = tv\<rparr>)"

text \<open>The skip test on a brick's (min, max) densities.\<close>

definition brick_skipped :: "scene \<Rightarrow> real \<times> real \<Rightarrow> bool" where
  "brick_skipped sc minMaxDensity =
     (let alphaMax = vw (tffData sc (snd minMaxDensity))
      in if alphaMax < 1 / 1000000
         then (let prefixMin = tffPrefix sc (fst minMaxDensity);
                   prefixMax = tffPrefix sc (snd minMaxDensity)
               in prefixMin = prefixMax)
         else False)"

text \<open>The increment to the next brick: its cell, the exit distance of the current brick, and the updated \<open>tv\<close>.\<close>

definition dda_advance :: "ray \<Rightarrow> dda_consts \<Rightarrow> dda \<Rightarrow> real \<Rightarrow> dda \<times> real" where
  "dda_advance ry dc d t =
     (case dda_tv d of (tx, ty, tz) \<Rightarrow>
        let voxIncr = ((if tx \<le> ty \<and> tx \<le> tz then 1 else 0),
                       (if ty \<le> tx \<and> ty \<le> tz then 1 else 0),
                       (if tz \<le> tx \<and> tz \<le> ty then 1 else 0)) :: vec3;
            cell1 = zip3 (+) (dda_cell d) (zip3 (*) (map3 floor voxIncr) (dda_step dc));
            t_exit0 = dot3 (splat 1) (vmul (dda_tv d) voxIncr);
            t_exit = clamp_f t_exit0 (t + ray_stepSize ry) (t + dda_brickDia dc);
            tv1 = vadd (dda_tv d) (vmul voxIncr (dda_deltaT dc))
        in (\<lparr>dda_cell = cell1, dda_tv = tv1\<rparr>, t_exit))"

text \<open>
  The 3D DDA loop \<open>while (t < tfar)\<close> with the ray-casting loop nested in it. The first
  argument is the fuel of this loop, the second the fuel handed to each run of the inner
  loop.
\<close>

fun ess_loop ::
  "nat \<Rightarrow> nat \<Rightarrow> scene \<Rightarrow> rendering_params \<Rightarrow> raycast_params \<Rightarrow> ray \<Rightarrow> dda_consts \<Rightarrow> dda \<Rightarrow>
   ray_state \<Rightarrow> ray_state option" where
  "ess_loop 0 m sc rp rc ry dc d s = None"
| "ess_loop (Suc n) m sc rp rc ry dc d s =
     (if \<not> r_t s < ray_tfar ry then Some s
      else
        let minMaxDensity = volBrick sc (dda_cell d)
        in case dda_advance ry dc d (r_t s) of (d1, t_exit) \<Rightarrow>
             if brick_skipped sc minMaxDensity
             then ess_loop n m sc rp rc ry dc d1 (s\<lparr>r_t := t_exit\<rparr>)
             else
               (case ray_loop m sc rp rc ry t_exit s of
                  None \<Rightarrow> None
                | Some s1 \<Rightarrow>
                    if r_t s1 \<ge> ray_tfar ry \<or> r_alpha s1 > ERT_THRESHOLD then Some s1
                    else if any3 (zip3 (=) (dda_cell d1) (dda_exit dc)) then Some s1
                    else ess_loop n m sc rp rc ry dc d1 (s1\<lparr>r_t := t_exit\<rparr>)))"

text \<open>
  After the loops: the optional bounding-box overlay, and the colour with the accumulated
  alpha as its fourth component.
\<close>

definition finish :: "rendering_params \<Rightarrow> ray \<Rightarrow> ray_state \<Rightarrow> vec4" where
  "finish rp ry s =
     (if showEss rp \<noteq> 0 \<and> checkBoundingBox (r_pos s) (ray_voxLen ry) (0, 1)
      then with_w (with_xyz (r_result s) (vabs (vsub (splat 1) (xyz (backgroundColor rp))))) 1
      else with_w (r_result s) (r_alpha s))"

text \<open>
  The set-up of a ray that crosses the clip box over the distances \<open>tnear0 < tfar\<close>. The
  quotient \<open>sampleDist / (samplingRate * length(...))\<close> is \<open>+inf\<close> for a zero divisor, so
  the minimum taken with it is \<open>sampleDist\<close>. \<open>None\<close>: a zero sampling rate, a rounded
  sample count of zero or a volume extent of zero puts an infinity into the step size, the
  reference interval or the voxel length.
\<close>

definition ray_setup ::
  "scene \<Rightarrow> rendering_params \<Rightarrow> raycast_params \<Rightarrow> uint \<times> uint \<Rightarrow> vec4 \<Rightarrow> vec3 \<Rightarrow> vec3 \<Rightarrow>
   real \<Rightarrow> real \<Rightarrow> ray option" where
  "ray_setup sc rp rc globalId envirCol camPos rayDir tnear0 tfar =
     (let rand = real (unat (ParallelRNG3 (fst globalId) (snd globalId) (seed rp))) / real UINT_MAX;
          sampleDist = tfar - tnear0;
          divisor = samplingRate rc *
                      length3 (vmul (smul sampleDist rayDir) (of_int3 (volRes sc)));
          stepSize0 = (if divisor = 0 then sampleDist else min sampleDist (sampleDist / divisor));
          samples = real_of_int \<lceil>sampleDist / stepSize0\<rceil>;
          stepSize = sampleDist / samples;
          voxLen = vdiv (splat 1) (of_int3 (volRes sc))
      in if samplingRate rc = 0 \<or> samples = 0 \<or>
            (case volRes sc of (nx, ny, nz) \<Rightarrow> nx = 0 \<or> ny = 0 \<or> nz = 0)
         then None
         else Some \<lparr>ray_camPos = camPos, ray_rayDir = rayDir, ray_envirCol = envirCol,
                    ray_tnear = max 0 tnear0, ray_tfar = tfar,
                    ray_sampleDist = sampleDist, ray_stepSize = stepSize,
                    ray_offset = length3 voxLen * rand * 2,
                    ray_refSamplingInterval = 1 / samplingRate rc,
                    ray_voxLen = voxLen\<rparr>)"

definition ray_start :: "ray \<Rightarrow> ray_state" where
  "ray_start ry =
     \<lparr>r_t = ray_tnear ry, r_alpha = 0, r_result = ray_envirCol ry, r_pos = (0, 0, 0),
      r_density = 0, r_tfColor = (0, 0, 0, 0), r_opacity = 0\<rparr>"

subsection \<open>The kernel\<close>

text \<open>
  The outcome of one work-item: it ran out of the fuel given to its loops, it left the
  finite numbers, or it finished with the writes it made.
\<close>

datatype 'a run = Out_of_fuel | Not_finite | Done 'a

text \<open>
  The colour of the environment behind a ray: the background colour, shaded by the
  direction when the gradient is on, or the texel of the environment map when one is bound
  (an image wider than one texel). The map is represented by the function from the ray
  direction to the texel read at \<open>get_environment_coords\<close> of it.
\<close>

definition environment_colour :: "rendering_params \<Rightarrow> (vec3 \<Rightarrow> vec4) option \<Rightarrow> vec3 \<Rightarrow> vec4" where
  "environment_colour rp env rayDir =
     (case env of
        Some texel \<Rightarrow> texel rayDir
      | None \<Rightarrow>
          (case backgroundColor rp of (r, g, b, a) \<Rightarrow> case rayDir of (dx, dy, dz) \<Rightarrow>
             let k = (if useGradient rp \<noteq> 0 then 7 / 10 + (1 / 2) * dy else 1)
             in (r * k, g * k, b * k, a * k)))"

text \<open>
  The progressive accumulation at the end of both techniques, per colour channel
  \<open>prevCol + (col - prevCol) / (float3)(iteration + 1)\<close> with \<open>iteration + 1\<close> computed in
  \<open>uint\<close>; it is \<open>accumulate\<close> of the flat revision.
\<close>

definition raycast_pixel ::
  "rendering_params \<Rightarrow> vec3 \<Rightarrow> vec4 \<Rightarrow> pixel_writes run" where
  "raycast_pixel rp prevCol result =
     (case accumulate (iteration rp) prevCol (xyz result) of
        None \<Rightarrow> Not_finite
      | Some acc \<Rightarrow>
          Done \<lparr>outImg = Some (with_xyz result acc), outAccumulate = Some (with_xyz result acc)\<rparr>)"

text \<open>
  The kernel \<open>volumeRender\<close> for one pixel inside the output image, built with
  (\<open>ess = True\<close>) or without \<open>-DESS\<close>. As for the flat revision, the ray set-up from the
  view matrix is represented by the ray it yields (\<open>camPos\<close>, \<open>rayDir\<close>), the reads of the
  hit image by their sum \<open>lastHit\<close> and the read of the accumulation image by \<open>prevCol\<close>.
  A ray whose box distances are not finite numbers, and a traversal outside \<open>dda_finite\<close>,
  end in \<open>Not_finite\<close>.
\<close>

definition volumeRender_grouped ::
  "bool \<Rightarrow> nat \<Rightarrow> scene \<Rightarrow> (vec3 \<Rightarrow> vec4) option \<Rightarrow> camera_params \<Rightarrow> rendering_params \<Rightarrow>
   raycast_params \<Rightarrow> pathtrace_params \<Rightarrow> uint \<times> uint \<Rightarrow> uint \<Rightarrow> vec3 \<Rightarrow> vec3 \<Rightarrow> vec3 \<Rightarrow>
   pixel_writes run" where
  "volumeRender_grouped ess fuel sc env cam rp rc pt globalId lastHit prevCol camPos rayDir =
     (let envirCol = environment_colour rp env rayDir
      in if imgEss rp \<noteq> 0 \<and> lastHit = 0
         then Done \<lparr>outImg = Some (if showEss rp \<noteq> 0
                                   then (case envirCol of (r, g, b, a) \<Rightarrow>
                                           (1 - r, 1 - g, 1 - b, 1 - a))
                                   else envirCol),
                    outAccumulate = None\<rparr>
         else
           case intersectBBox camPos rayDir (bbox_bl cam) (bbox_tr cam) of (hit, tnear, tfar) \<Rightarrow>
             if \<not> hit \<or> xless tfar (Fin 0)
             then Done \<lparr>outImg = Some envirCol, outAccumulate = None\<rparr>
             else
               case (tnear, tfar) of
                 (Fin tn, Fin tf) \<Rightarrow>
                   if technique rp = 1
                   then
                     (let random = ParallelRNG3 (fst globalId) (snd globalId) (seed rp);
                          col = trace_volume_grouped sc random camPos rayDir tn
                                  (max_extinction pt) envirCol
                      in case accumulate (iteration rp) prevCol col of
                           None \<Rightarrow> Not_finite
                         | Some acc \<Rightarrow>
                             Done \<lparr>outImg = Some (rgb1 acc), outAccumulate = Some (rgb1 acc)\<rparr>)
                   else if tf - tn \<le> 0
                   then Done \<lparr>outImg = None, outAccumulate = None\<rparr>
                   else
                     (case ray_setup sc rp rc globalId envirCol camPos rayDir tn tf of
                        None \<Rightarrow> Not_finite
                      | Some ry \<Rightarrow>
                          if ess \<and> \<not> dda_finite rc rayDir then Not_finite
                          else
                            case (if ess
                                  then ess_loop fuel fuel sc rp rc ry (dda_setup sc rc ry)
                                         (dda_start sc rc ry) (ray_start ry)
                                  else ray_loop fuel sc rp rc ry (ray_tfar ry) (ray_start ry)) of
                              None \<Rightarrow> Out_of_fuel
                            | Some s \<Rightarrow> raycast_pixel rp prevCol (finish rp ry s))
               | _ \<Rightarrow> Not_finite)"

subsection \<open>The brick builder kernel\<close>

text \<open>
  The kernel \<open>generateBricks\<close> for the work-item \<open>coord\<close>. Image extents and voxel
  coordinates are \<open>int\<close>s far below \<open>2^31\<close> (a 3D image has at most a few thousand
  texels per axis), so they are modelled as unbounded integers. The three nested loops visit
  the voxels of the block in the order z, y, x; \<open>None\<close> stands for a work-item outside the
  brick grid, which writes nothing.
\<close>

definition block_lower :: "scene \<Rightarrow> int3 \<Rightarrow> int3" where
  "block_lower sc coord =
     zip3 (*) (zip3 (\<lambda>v b. \<lceil>real_of_int v / real_of_int b\<rceil>) (volRes sc) (bricksRes sc)) coord"

definition block_upper :: "scene \<Rightarrow> int3 \<Rightarrow> int3" where
  "block_upper sc coord =
     zip3 (\<lambda>u v. clamp_i u 0 v)
       (zip3 (+) (block_lower sc coord)
          (zip3 (\<lambda>v b. \<lceil>real_of_int v / real_of_int b\<rceil>) (volRes sc) (bricksRes sc)))
       (volRes sc)"

definition block_voxels :: "int3 \<Rightarrow> int3 \<Rightarrow> int3 list" where
  "block_voxels lo hi =
     (case lo of (lx, ly, lz) \<Rightarrow> case hi of (ux, uy, uz) \<Rightarrow>
        [(i, j, k). k \<leftarrow> [lz..uz - 1], j \<leftarrow> [ly..uy - 1], i \<leftarrow> [lx..ux - 1]])"

definition min_max_step :: "scene \<Rightarrow> real \<times> real \<Rightarrow> int3 \<Rightarrow> real \<times> real" where
  "min_max_step sc acc c =
     (case acc of (minVal, maxVal) \<Rightarrow>
        let val = volTexel sc c in (min minVal val, max maxVal val))"

definition generateBricks_kernel :: "scene \<Rightarrow> int3 \<Rightarrow> (real \<times> real) option" where
  "generateBricks_kernel sc coord =
     (if any3 (zip3 (\<ge>) coord (bricksRes sc)) then None
      else Some (foldl (min_max_step sc) (1, 0)
                   (block_voxels (block_lower sc coord) (block_upper sc coord))))"

section \<open>Small scenes for the concrete instances\<close>

text \<open>
  A homogeneous volume of density 1 under a transfer function that is constant in the
  density: black with the alpha given as argument. Its brick grid
  has two bricks along z, each with minimum and maximum density 1. The prefix sum of a
  constant table of 256 entries of 8-bit alpha \<open>a\<close> grows by \<open>a\<close> per entry; read through
  \<open>nearestSmp\<close> it is entry \<open>\<lfloor>256 d\<rfloor>\<close> for a coordinate \<open>d\<close> in \<open>[0, 1)\<close> and the
  border value 0 outside, as is the nearest read of the volume.
\<close>

definition constant_tff :: "real \<Rightarrow> real \<Rightarrow> vec4" where
  [simp]: "constant_tff a = (\<lambda>d. (0, 0, 0, a))"

definition uniform_texels :: "real \<Rightarrow> int \<times> int \<times> int \<Rightarrow> real" where
  [simp]: "uniform_texels v = (\<lambda>c. v)"

definition demo_scene :: "real \<Rightarrow> uint \<Rightarrow> scene" where
  "demo_scene a a8 =
     \<lparr>volRes = (1, 1, 2),
      volOrder = CL_R,
      volLinear = (\<lambda>p. (1, 0, 0, 1)),
      volNearest = (\<lambda>p. case p of (x, y, z) \<Rightarrow>
                      if 0 \<le> x \<and> x < 1 \<and> 0 \<le> y \<and> y < 1 \<and> 0 \<le> z \<and> z < 1
                      then (1, 0, 0, 1) else (0, 0, 0, 1)),
      volTexel = uniform_texels 1,
      bricksRes = (1, 1, 2),
      volBrick = (\<lambda>c. (1, 1)),
      tffData = constant_tff a,
      tffPrefix = (\<lambda>d. if 0 \<le> d \<and> d < 1 then a8 * (of_int \<lfloor>256 * d\<rfloor> + 1) else 0),
      calcAO = (\<lambda>n p. 0)\<rparr>"

text \<open>
  The renderer state after loading the demo volume, switching illumination off and setting
  the sampling rate to 1; the ray-casting parameters with the brick resolution of the
  scene's grid, with the depth cue off and on; and two rays of direction
  \<open>(12/13, 4/13, 3/13)\<close> that enter the unit cube through the face \<open>x = -1\<close> at distance 13
  from the camera, cross the brick boundary \<open>z = 0\<close> inside the cube and leave it at
  distance \<open>91/6\<close>: the first through the face \<open>x = 1\<close>, the second through the edge
  \<open>x = 1, y = 1\<close>. A third ray of the same direction and distances stays below \<open>z = 0\<close>,
  inside the first brick.
\<close>

definition demo_render :: render_state where
  "demo_render = updateSamplingRate 1 (setIllumination 0 demo_loaded)"

definition demo_rc :: raycast_params where
  "demo_rc = (raycast demo_render)\<lparr>brickRes := (1, 1, 2)\<rparr>"

definition demo_rc_aerial :: raycast_params where
  "demo_rc_aerial = (raycast (setAerial True demo_render))\<lparr>brickRes := (1, 1, 2)\<rparr>"

definition demo_cam :: vec3 where
  "demo_cam = (- 13, - (13 / 3), - (13 / 4))"

definition demo_cam_edge :: vec3 where
  "demo_cam_edge = (- 13, - (11 / 3), - (13 / 4))"

definition demo_cam_low :: vec3 where
  "demo_cam_low = (- 13, - (13 / 3), - (15 / 4))"

definition demo_dir :: vec3 where
  "demo_dir = (12 / 13, 4 / 13, 3 / 13)"

text \<open>
  The values that the ray set-up computes for these rays at pixel \<open>(0, 0)\<close> over the white
  environment: three steps of \<open>13/18\<close> cover the crossing.
\<close>

definition demo_ray :: "vec3 \<Rightarrow> ray" where
  "demo_ray cam =
     \<lparr>ray_camPos = cam, ray_rayDir = demo_dir, ray_envirCol = (1, 1, 1, 1),
      ray_tnear = 13, ray_tfar = 91 / 6, ray_sampleDist = 13 / 6, ray_stepSize = 13 / 18,
      ray_offset = 3 / 2 * (real (unat (ParallelRNG3 0 0 42)) / real UINT_MAX) * 2,
      ray_refSamplingInterval = 1, ray_voxLen = (1, 1, 1 / 2)\<rparr>"

text \<open>
  The same scene over a four-channel volume whose every voxel is black with alpha
  \<open>1/5\<close>; a row of two voxels with the grid of two bricks that the host builds for it; and
  a scene whose five-voxel row is bound to a four-cell brick grid.
\<close>

definition demo_rgba_scene :: scene where
  "demo_rgba_scene =
     (demo_scene 0 0)\<lparr>volOrder := CL_RGBA, volLinear := (\<lambda>p. (0, 0, 0, 1 / 5))\<rparr>"


definition demo_row_scene :: scene where
  "demo_row_scene = (demo_scene 0 0)\<lparr>volRes := (5, 1, 1), bricksRes := (4, 1, 1)\<rparr>"



section \<open>Verified properties\<close>

subsection \<open>The alpha prefix sum of the transfer function\<close>

lemma length_alphaValues: "length (alphaValues tff) = length tff div 4"
  by (induction tff rule: alphaValues.induct) simp_all

lemma alphaValues_nth:
  "i < length tff div 4 \<Longrightarrow> alphaValues tff ! i = ucast (tff ! (4 * i + 3))"
proof (induction tff arbitrary: i rule: alphaValues.induct)
  case (1 r g b a rest)
  then show ?case by (cases i) (simp_all add: add.commute)
qed simp_all

lemma unat_ucast_uchar: "unat (ucast (a :: uchar) :: uint) = unat a"
proof -
  have "unat a < 2 ^ 8" using unsigned_less [of a, where 'a = nat] by simp
  then have "unat a < 2 ^ 32" by simp
  then show ?thesis by (simp add: unsigned_ucast_eq take_bit_nat_eq_self_iff)
qed

lemma unat_uchar_le: "unat (a :: uchar) \<le> 255"
  using unsigned_less [of a, where 'a = nat] by simp

lemma sum_alphaValues:
  "sum_list (map unat (alphaValues tff)) = (\<Sum>i<length tff div 4. unat (tff ! (4 * i + 3)))"
proof -
  have "sum_list (map unat (alphaValues tff)) = (\<Sum>i<length (alphaValues tff). unat (alphaValues tff ! i))"
    by (simp add: sum_list_sum_nth atLeast0LessThan)
  also have "\<dots> = (\<Sum>i<length tff div 4. unat (tff ! (4 * i + 3)))"
    by (rule sum.cong) (simp_all add: length_alphaValues alphaValues_nth unat_ucast_uchar)
  finally show ?thesis .
qed

lemma sum_alphaValues_le: "sum_list (map unat (alphaValues tff)) \<le> 255 * (length tff div 4)"
proof -
  have "sum_list (map unat (alphaValues tff)) \<le> (\<Sum>i<length tff div 4. 255)"
    unfolding sum_alphaValues by (rule sum_mono) (rule unat_uchar_le)
  then show ?thesis by simp
qed

lemma length_partial_sum_from: "length (partial_sum_from acc xs) = length xs"
  by (induction xs arbitrary: acc) simp_all

lemma unat_add_no_wrap:
  "unat (a :: uint) + unat b < 2 ^ 32 \<Longrightarrow> unat (a + b) = unat a + unat b"
  by (simp add: unat_add_lem [THEN iffD1])

lemma partial_sum_from_lower:
  "unat acc + sum_list (map unat xs) < 2 ^ 32 \<Longrightarrow> y \<in> set (partial_sum_from acc xs) \<Longrightarrow>
   unat acc \<le> unat y"
proof (induction xs arbitrary: acc)
  case Nil
  then show ?case by simp
next
  case (Cons x xs)
  have ux: "unat (acc + x) = unat acc + unat x"
    using Cons.prems(1) by (simp add: unat_add_no_wrap)
  from Cons.prems(2) consider "y = acc + x" | "y \<in> set (partial_sum_from (acc + x) xs)"
    by auto
  then show ?case
  proof cases
    case 1
    then show ?thesis using ux by simp
  next
    case 2
    have "unat (acc + x) \<le> unat y"
      using Cons.prems(1) ux by (intro Cons.IH [OF _ 2]) simp
    then show ?thesis using ux by simp
  qed
qed

lemma partial_sum_from_sorted:
  "unat acc + sum_list (map unat xs) < 2 ^ 32 \<Longrightarrow> sorted (map unat (partial_sum_from acc xs))"
proof (induction xs arbitrary: acc)
  case Nil
  then show ?case by simp
next
  case (Cons x xs)
  have ux: "unat (acc + x) = unat acc + unat x"
    using Cons.prems by (simp add: unat_add_no_wrap)
  have small: "unat (acc + x) + sum_list (map unat xs) < 2 ^ 32"
    using Cons.prems ux by simp
  show ?case
    using Cons.IH [OF small] partial_sum_from_lower [OF small] by auto
qed

lemma partial_sum_from_last:
  "unat acc + sum_list (map unat xs) < 2 ^ 32 \<Longrightarrow> xs \<noteq> [] \<Longrightarrow>
   unat (last (partial_sum_from acc xs)) = unat acc + sum_list (map unat xs)"
proof (induction xs arbitrary: acc)
  case Nil
  then show ?case by simp
next
  case (Cons x xs)
  have ux: "unat (acc + x) = unat acc + unat x"
    using Cons.prems(1) by (simp add: unat_add_no_wrap)
  show ?case
  proof (cases xs)
    case Nil
    then show ?thesis using ux by simp
  next
    case (Cons z zs)
    have small: "unat (acc + x) + sum_list (map unat xs) < 2 ^ 32"
      using Cons.prems ux \<open>unat acc + sum_list (map unat (x # xs)) < 2 ^ 32\<close> by simp
    have ne: "partial_sum_from (acc + x) xs \<noteq> []" using Cons by simp
    show ?thesis
      using Cons.IH [OF small] Cons ne ux by simp
  qed
qed

lemma RoundPow2_0: "RoundPow2 0 = 0"
  by (simp add: RoundPow2_def Let_def)

lemma brick_axis_small: "brick_axis 1 = 1"
  by (simp add: brick_axis_def RoundPow2_0)

lemma length_default_prefix_sum: "length default_prefix_sum = 1024"
  by (simp add: default_prefix_sum_def partial_sum_def length_partial_sum_from)

lemma demo_loaded_eq:
  "demo_loaded = (init_state 16384)\<lparr>dr := \<lparr>dr_prop = demo_props, raw_data = [[0]],
                                           histograms = []\<rparr>,
      volLoaded := True,
      volumesMem := [volume_image demo_props CL_R CL_UNORM_INT8 [0]],
      tffPrefixMem := default_prefix_sum\<rparr>"
  by (simp add: demo_loaded_def loadVolumeData_def Let_def has_data_def volDataToCLmem_def
      demo_props_def known_channel_order_def known_data_type_def required_size_def
      res_x_def res_y_def res_z_def setTffPrefixSum_def calcScaling_def init_state_def
      image1d_ok_def length_default_prefix_sum)

lemma brick_loop_dr: "brick_loop k i sz st = (r, st') \<Longrightarrow> dr st' = dr st"
  by (induction k i sz st rule: brick_loop.induct) (auto simp: Let_def split: if_splits)

lemma generateBricks_dr: "generateBricks st = (r, st') \<Longrightarrow> dr st' = dr st"
  by (auto simp: generateBricks_def Let_def split: if_splits dest!: brick_loop_dr)

lemma setTransferFunction_prefix:
  assumes "setTransferFunction tff st = (Inr (), st')" and "has_data (dr st)"
  shows "tffPrefixMem st' = tffPrefixSum tff" and "image1d_ok st (length tff div 4)"
proof -
  obtain r st1 where g: "generateBricks (st\<lparr>tffMem := tff\<rparr>) = (r, st1)"
    by (cases "generateBricks (st\<lparr>tffMem := tff\<rparr>)")
  from generateBricks_dr [OF g] have d: "dr st1 = dr st" by simp
  show "tffPrefixMem st' = tffPrefixSum tff"
    using assms g d
    by (cases r)
       (auto simp: setTransferFunction_def resetIteration_def setTffPrefixSum_def
             split: if_splits)
  show "image1d_ok st (length tff div 4)"
    using assms by (auto simp: setTransferFunction_def split: if_splits)
qed

lemma tffPrefixSum_props:
  assumes "length tff div 4 \<le> 16843009"
  shows "length (tffPrefixSum tff) = length tff div 4"
    and "sorted (map unat (tffPrefixSum tff))"
    and "tffPrefixSum tff \<noteq> [] \<Longrightarrow>
         unat (last (tffPrefixSum tff)) = (\<Sum>i<length tff div 4. unat (tff ! (4 * i + 3)))"
proof -
  have "sum_list (map unat (alphaValues tff)) \<le> 255 * 16843009"
    using sum_alphaValues_le [of tff] assms by simp
  then have small: "unat (0 :: uint) + sum_list (map unat (alphaValues tff)) < 2 ^ 32"
    by simp
  show "length (tffPrefixSum tff) = length tff div 4"
    by (simp add: tffPrefixSum_def partial_sum_def length_partial_sum_from length_alphaValues)
  show "sorted (map unat (tffPrefixSum tff))"
    unfolding tffPrefixSum_def partial_sum_def by (rule partial_sum_from_sorted [OF small])
  assume "tffPrefixSum tff \<noteq> []"
  then have ne: "alphaValues tff \<noteq> []"
    by (auto simp: tffPrefixSum_def partial_sum_def)
  show "unat (last (tffPrefixSum tff)) = (\<Sum>i<length tff div 4. unat (tff ! (4 * i + 3)))"
    unfolding tffPrefixSum_def partial_sum_def
    using partial_sum_from_last [OF small ne] by (simp add: sum_alphaValues)
qed

text \<open>
  Claim C2. While a volume is loaded, on a device whose images are at most \<open>2^24\<close> texels
  wide (the limits that devices report lie between \<open>2^11\<close> and \<open>2^16\<close>), for every RGBA
  table passed to \<open>setTransferFunction\<close> from which a prefix sum is derived, that is, for
  which the call returns, the stored alpha prefix sum has one entry per table entry (built
  from every fourth byte), is non-decreasing, and its last entry is the sum of all alpha
  bytes of the table. A table that the device refuses makes the call throw before any
  prefix sum is computed; a table that it accepts is too short for the \<open>unsigned int\<close>
  accumulator to wrap.
\<close>

theorem setTransferFunction_prefix_sum:
  assumes "setTransferFunction tff st = (Inr (), st')" and "has_data (dr st)"
    and "image_max_width st \<le> 2 ^ 24"
  shows "length (tffPrefixMem st') = length tff div 4 \<and>
         sorted (map unat (tffPrefixMem st')) \<and>
         tffPrefixMem st' \<noteq> [] \<and>
         unat (last (tffPrefixMem st')) = (\<Sum>i<length tff div 4. unat (tff ! (4 * i + 3)))"
proof -
  note p = setTransferFunction_prefix [OF assms(1,2)]
  from p(2) assms(3) have w: "0 < length tff div 4" "length tff div 4 \<le> 16843009"
    by (simp_all add: image1d_ok_def)
  note q = tffPrefixSum_props [OF w(2)]
  from q(1) w(1) have ne: "tffPrefixSum tff \<noteq> []" by auto
  from q(1,2) q(3) [OF ne] ne p(1) show ?thesis by simp
qed

lemma demo_set:
  assumes "0 < length tff div 4" and "length tff div 4 \<le> 16384"
  shows "setTransferFunction tff demo_loaded =
     (Inr (), resetIteration (demo_loaded\<lparr>tffMem := tff,
        raycast := (raycast demo_loaded)\<lparr>brickRes := (1, 1, 1)\<rparr>, bricksMem := [(1, 1, 1)],
        tffPrefixMem := tffPrefixSum tff\<rparr>))"
proof -
  have l: "length (tffPrefixSum tff) = length tff div 4"
    by (simp add: tffPrefixSum_def partial_sum_def length_partial_sum_from length_alphaValues)
  show ?thesis
    using assms
    by (simp add: demo_loaded_eq setTransferFunction_def has_data_def generateBricks_def Let_def
        init_state_def demo_props_def res_x_def res_y_def res_z_def brick_axis_small
        known_format_def bricksTexSize_def setTffPrefixSum_def resetIteration_def
        image1d_ok_def l)
qed

lemma demo_has_data: "has_data (dr demo_loaded)"
  by (simp add: demo_loaded_eq has_data_def)

lemma demo_max_width: "image_max_width demo_loaded = 16384"
  by (simp add: demo_loaded_eq init_state_def)

text \<open>An instance: the two-entry table with alphas 7 and 9 yields the prefix sums 7 and 16.\<close>

theorem setTransferFunction_prefix_sum_witness:
  "length (tffPrefixMem (snd (setTransferFunction [0, 0, 0, 7, 0, 0, 0, 9] demo_loaded))) = 2 \<and>
   sorted (map unat (tffPrefixMem (snd (setTransferFunction [0, 0, 0, 7, 0, 0, 0, 9] demo_loaded)))) \<and>
   unat (last (tffPrefixMem (snd (setTransferFunction [0, 0, 0, 7, 0, 0, 0, 9] demo_loaded)))) = 16"
proof -
  let ?tff = "[0, 0, 0, 7, 0, 0, 0, 9] :: uchar list"
  let ?st = "snd (setTransferFunction ?tff demo_loaded)"
  have run: "setTransferFunction ?tff demo_loaded = (Inr (), ?st)"
    by (simp add: demo_set)
  have w: "image_max_width demo_loaded \<le> 2 ^ 24" by (simp add: demo_max_width)
  have "{..<2::nat} = {0, 1}" by auto
  then have s: "(\<Sum>i<length ?tff div 4. unat (?tff ! (4 * i + 3))) = 16"
    by simp
  from setTransferFunction_prefix_sum [OF run demo_has_data w] s show ?thesis
    by simp
qed

subsection \<open>Loading a volume whose buffer does not fit its header\<close>

lemma upload_loop_result:
  "upload_loop co ct fm vs st =
     (if \<exists>v\<in>set vs. length v < unat (required_size (dr_prop (dr st)) fm)
      then (Inl (RuntimeError mismatch_msg),
            st\<lparr>volumesMem := volumesMem st @
                   map (volume_image (dr_prop (dr st)) co ct)
                     (takeWhile (\<lambda>v. \<not> length v < unat (required_size (dr_prop (dr st)) fm)) vs),
               dr := clearData (dr st)\<rparr>)
      else (Inr (), st\<lparr>volumesMem := volumesMem st @ map (volume_image (dr_prop (dr st)) co ct) vs\<rparr>))"
proof (induction vs arbitrary: st)
  case Nil
  then show ?case by simp
next
  case (Cons v vs)
  show ?case
  proof (cases "length v < unat (required_size (dr_prop (dr st)) fm)")
    case True
    then show ?thesis by (simp add: Let_def)
  next
    case False
    then show ?thesis
      by (simp add: Cons.IH Let_def)
  qed
qed














subsection \<open>Which setters reset progressive accumulation\<close>

lemma resetIteration_zero: "iteration (rendering (resetIteration st)) = 0"
  by (simp add: resetIteration_def)

lemma upload_loop_rendering:
  "rendering (snd (upload_loop co ct fm vs st)) = rendering st"
  by (simp add: upload_loop_result)

lemma volDataToCLmem_rendering:
  "rendering (snd (volDataToCLmem vs st)) = rendering st"
  by (simp add: volDataToCLmem_def upload_loop_rendering split: option.splits prod.splits)

lemma demo_frame_iteration: "iteration (rendering (runRaycast s demo_loaded)) = 1"
  by (simp add: runRaycast_def demo_loaded_eq init_state_def)

lemma setTransferFunction_iteration:
  assumes "has_data (dr st)" and "setTransferFunction tff st = (Inr (), st')"
  shows "iteration (rendering st') = 0"
  using assms
  by (auto simp: setTransferFunction_def resetIteration_zero split: if_splits prod.splits sum.splits)

text \<open>
  Claim C6, as amended. The setters of the view matrix (once a volume is loaded), of the
  clip box, of the rendering technique, of the transfer function (when a volume is loaded
  and the call returns) and of a time step (unless it is rejected as out of range) leave
  the progressive-accumulation iteration counter equal to zero. The setters of the projection kind, the sampling rate, the
  illumination mode, every boolean toggle, the background colour and the extinction
  coefficient leave the counter as it was; a caller that wants the accumulation restarted
  after one of these follows it with a view update.
\<close>

theorem setters_and_iteration:
  "iteration (rendering (setBBox bl tr st)) = 0 \<and>
   iteration (rendering (setTechnique tech st)) = 0 \<and>
   (has_data (dr st) \<and> 3 \<le> length (modelScale st) \<longrightarrow>
      iteration (rendering (updateView vm st)) = 0) \<and>
   (has_data (dr st) \<and> setTransferFunction tff st = (Inr (), st') \<longrightarrow>
      iteration (rendering st') = 0) \<and>
   (\<not> (has_data (dr st) \<and> t \<ge> ucast (res_t (dr_prop (dr st)))) \<longrightarrow>
      iteration (rendering (setTimestep t st)) = 0) \<and>
   iteration (rendering (setCamOrtho b st)) = iteration (rendering st) \<and>
   iteration (rendering (updateSamplingRate sr st)) = iteration (rendering st) \<and>
   iteration (rendering (setIllumination illum st)) = iteration (rendering st) \<and>
   iteration (rendering (setAmbientOcclusion b st)) = iteration (rendering st) \<and>
   iteration (rendering (setShowESS b st)) = iteration (rendering st) \<and>
   iteration (rendering (setLinearInterpolation b st)) = iteration (rendering st) \<and>
   iteration (rendering (setContours b st)) = iteration (rendering st) \<and>
   iteration (rendering (setAerial b st)) = iteration (rendering st) \<and>
   iteration (rendering (setImgEss b st)) = iteration (rendering st) \<and>
   iteration (rendering (snd (setObjEss b st))) = iteration (rendering st) \<and>
   iteration (rendering (setBackground color st)) = iteration (rendering st) \<and>
   iteration (rendering (setUseGradient b st)) = iteration (rendering st) \<and>
   iteration (rendering (setExtinction e st)) = iteration (rendering st)"
  using setTransferFunction_iteration [of st tff st']
  by (simp add: setBBox_def setTechnique_def updateView_def resetIteration_zero setTimestep_def
      setCamOrtho_def updateSamplingRate_def setIllumination_def setAmbientOcclusion_def
      setShowESS_def setLinearInterpolation_def setContours_def setAerial_def setImgEss_def
      setObjEss_def Let_def volDataToCLmem_rendering setBackground_def setUseGradient_def
      setExtinction_def split: prod.splits)

text \<open>
  An instance, one rendered frame after loading the demo volume: the counter stands at 1;
  a view update takes it to 0, and so does a new transfer function; switching to the
  orthographic camera leaves it at 1.
\<close>

theorem setters_and_iteration_witness:
  "has_data (dr (runRaycast 7 demo_loaded)) \<and> 3 \<le> length (modelScale (runRaycast 7 demo_loaded)) \<and>
   iteration (rendering (updateView [1, 0, 0, 0, 0, 1, 0, 0, 0, 0, 1, 0, 0, 0, 0, 1]
                           (runRaycast 7 demo_loaded))) = 0 \<and>
   fst (setTransferFunction [0, 0, 0, 7] (runRaycast 7 demo_loaded)) = Inr () \<and>
   iteration (rendering (snd (setTransferFunction [0, 0, 0, 7] (runRaycast 7 demo_loaded)))) = 0 \<and>
   iteration (rendering (setCamOrtho True (runRaycast 7 demo_loaded))) = 1"
proof -
  let ?st = "runRaycast 7 demo_loaded"
  have h: "has_data (dr ?st) \<and> 3 \<le> length (modelScale ?st)"
    by (simp add: runRaycast_def demo_loaded_eq init_state_def has_data_def)
  have f: "fst (setTransferFunction [0, 0, 0, 7] ?st) = Inr ()"
    by (simp add: runRaycast_def demo_loaded_eq setTransferFunction_def has_data_def
        generateBricks_def Let_def init_state_def demo_props_def res_x_def res_y_def res_z_def
        brick_axis_small known_format_def bricksTexSize_def setTffPrefixSum_def
        image1d_ok_def tffPrefixSum_def partial_sum_def)
  then have r: "setTransferFunction [0, 0, 0, 7] ?st =
                  (Inr (), snd (setTransferFunction [0, 0, 0, 7] ?st))"
    by (cases "setTransferFunction [0, 0, 0, 7] ?st") simp
  from setters_and_iteration [of _ _ ?st _
      "[1, 0, 0, 0, 0, 1, 0, 0, 0, 0, 1, 0, 0, 0, 0, 1]" "[0, 0, 0, 7]"
      "snd (setTransferFunction [0, 0, 0, 7] ?st)" _ True] h f r
  show ?thesis by (simp add: demo_frame_iteration)
qed

text \<open>
  The claim as stated fails for the projection, sampling-rate, toggle and extinction
  setters: after one rendered frame each of them returns with the counter still at 1.
\<close>

theorem setter_without_reset_counterexample:
  "iteration (rendering (setCamOrtho True (runRaycast 7 demo_loaded))) = 1 \<and>
   iteration (rendering (updateSamplingRate 2 (runRaycast 7 demo_loaded))) = 1 \<and>
   iteration (rendering (setAerial True (runRaycast 7 demo_loaded))) = 1 \<and>
   iteration (rendering (setExtinction 50 (runRaycast 7 demo_loaded))) = 1"
  by (simp add: setCamOrtho_def updateSamplingRate_def setAerial_def setExtinction_def
      demo_frame_iteration)

subsection \<open>The free-flight loop of the path tracer\<close>

lemma sample_loop_props:
  "cnt \<le> 512 \<Longrightarrow>
   (let r = sample_loop sc rand ray_pos ray_dir mext colorIn t cnt
    in unat (cnt_out r) \<le> 513 \<and>
       (512 < cnt_out r \<longrightarrow> \<not> is_hit r) \<and>
       (\<not> in_volume (last_pos r) \<longrightarrow> \<not> is_hit r) \<and>
       (\<not> is_hit r \<longrightarrow> ray_pos_out r = ray_pos \<and> color_out r = colorIn))"
proof (induction sc rand ray_pos ray_dir mext colorIn t cnt rule: sample_loop.induct)
  case (1 sc rand ray_pos ray_dir mext colorIn t cnt)
  let ?cnt1 = "cnt + 1"
  let ?t1 = "t - ln (1 - mapUintFloat (ParallelRNG rand)) / mext"
  let ?pos = "vadd ray_pos (smul ?t1 ray_dir)"
  let ?sample = "vw (tffData sc (get_extinction mext ?pos sc / mext))"
  let ?miss = "\<lparr>is_hit = False, ray_pos_out = ray_pos, color_out = colorIn,
                last_pos = ?pos, cnt_out = ?cnt1\<rparr>"
  from "1.prems" have "unat cnt \<le> 512" by (simp add: word_le_nat_alt)
  then have u1: "unat ?cnt1 = unat cnt + 1"
    by (simp add: unat_add_lem [THEN iffD1])
  with \<open>unat cnt \<le> 512\<close> have b1: "unat ?cnt1 \<le> 513" by simp
  consider (out) "\<not> in_volume ?pos"
    | (cap) "in_volume ?pos" "512 < ?cnt1"
    | (again) "in_volume ?pos" "\<not> 512 < ?cnt1" "?sample < mapUintFloat rand"
    | (accept) "in_volume ?pos" "\<not> 512 < ?cnt1" "\<not> ?sample < mapUintFloat rand"
    by blast
  then show ?case
  proof cases
    case out
    then have "sample_loop sc rand ray_pos ray_dir mext colorIn t cnt = ?miss"
      by (subst sample_loop.simps) (simp add: Let_def)
    then show ?thesis using b1 out by (simp add: Let_def)
  next
    case cap
    then have "sample_loop sc rand ray_pos ray_dir mext colorIn t cnt = ?miss"
      by (subst sample_loop.simps) (simp add: Let_def)
    then show ?thesis using b1 by (simp add: Let_def)
  next
    case again
    then have rec: "sample_loop sc rand ray_pos ray_dir mext colorIn t cnt =
                    sample_loop sc rand ray_pos ray_dir mext colorIn ?t1 ?cnt1"
      by (subst sample_loop.simps) (simp add: Let_def)
    from again have inv: "\<not> \<not> in_volume ?pos" and le: "?cnt1 \<le> 512" by simp_all
    show ?thesis
      unfolding rec
      by (rule "1.IH" [OF refl refl refl refl inv refl again(2) again(3) le])
  next
    case accept
    then have "sample_loop sc rand ray_pos ray_dir mext colorIn t cnt =
               \<lparr>is_hit = True, ray_pos_out = ?pos, color_out = tffData sc ?sample,
                last_pos = ?pos, cnt_out = ?cnt1\<rparr>"
      by (subst sample_loop.simps) (simp add: Let_def)
    then show ?thesis using b1 accept by (simp add: Let_def)
  qed
qed

text \<open>
  Claim C7. The free-flight loop of \<open>sample_interaction\<close> terminates for every input (the
  function is total: its recursion is well-founded on the iteration counter) after at most
  513 iterations. Whenever the counter has passed 512 or the last sampled position lies
  outside the volume, it reports no interaction and hands back the ray position and colour
  unchanged, and \<open>trace_volume\<close> then returns the constant environment colour \<open>(1, 1, 1)\<close>.
\<close>

theorem sample_interaction_bounded:
  "unat (cnt_out (sample_interaction sc rand ray_pos ray_dir mext colorIn)) \<le> 513 \<and>
   (512 < cnt_out (sample_interaction sc rand ray_pos ray_dir mext colorIn) \<longrightarrow>
      \<not> is_hit (sample_interaction sc rand ray_pos ray_dir mext colorIn)) \<and>
   (\<not> in_volume (last_pos (sample_interaction sc rand ray_pos ray_dir mext colorIn)) \<longrightarrow>
      \<not> is_hit (sample_interaction sc rand ray_pos ray_dir mext colorIn)) \<and>
   (\<not> is_hit (sample_interaction sc rand ray_pos ray_dir mext colorIn) \<longrightarrow>
      ray_pos_out (sample_interaction sc rand ray_pos ray_dir mext colorIn) = ray_pos \<and>
      color_out (sample_interaction sc rand ray_pos ray_dir mext colorIn) = colorIn) \<and>
   (\<not> is_hit (sample_interaction sc rand (vadd ray_pos (smul t0 ray_dir)) ray_dir mext (1, 1, 1, 1)) \<longrightarrow>
      trace_volume sc rand ray_pos ray_dir t0 mext = (1, 1, 1))"
  using sample_loop_props [of 0 sc rand ray_pos ray_dir mext colorIn 0]
  by (simp add: sample_interaction_def trace_volume_def Let_def splat_def)

text \<open>
  Two instances in the demo scene with a fully transparent transfer function. A ray that
  stands still at the centre of the volume is never accepted and never leaves: the loop
  runs its full 513 iterations and reports no interaction. A ray that starts outside the
  volume reports no interaction in the first iteration.
\<close>

lemma still_ray_loop:
  "cnt \<le> 512 \<Longrightarrow>
   sample_loop (demo_scene 0 0) 1 (0, 0, 0) (0, 0, 0) 80 c t cnt =
     \<lparr>is_hit = False, ray_pos_out = (0, 0, 0), color_out = c, last_pos = (0, 0, 0), cnt_out = 513\<rparr>"
proof (induction "demo_scene 0 0" "1 :: uint" "(0, 0, 0) :: vec3" "(0, 0, 0) :: vec3" "80 :: real" c t cnt
    rule: sample_loop.induct)
  case (1 c t cnt)
  have thr: "0 < mapUintFloat 1" by (simp add: mapUintFloat_def UINT_MAX_def)
  have pos: "vadd (0, 0, 0) (smul x (0, 0, 0)) = (0, 0, 0)" for x
    by (simp add: vadd_def smul_def)
  have inv: "in_volume (0, 0, 0)" by (simp add: in_volume_def)
  have smp: "vw (tffData (demo_scene 0 0) d) = 0" for d
    by (simp add: demo_scene_def vw_def)
  show ?case
  proof (cases "cnt = 512")
    case True
    then show ?thesis
      by (subst sample_loop.simps) (simp add: Let_def pos inv smp thr)
  next
    case False
    with "1.prems" have lt: "cnt < 512" by simp
    then have "unat cnt < 512" by (simp add: word_less_nat_alt)
    then have "unat (cnt + 1) = unat cnt + 1"
      by (simp add: unat_add_lem [THEN iffD1])
    with \<open>unat cnt < 512\<close> have le: "cnt + 1 \<le> 512"
      by (simp add: word_le_nat_alt)
    then have nl: "\<not> 512 < cnt + 1" by simp
    have "sample_loop (demo_scene 0 0) 1 (0, 0, 0) (0, 0, 0) 80 c t cnt =
          sample_loop (demo_scene 0 0) 1 (0, 0, 0) (0, 0, 0) 80 c
            (t - ln (1 - mapUintFloat (ParallelRNG 1)) / 80) (cnt + 1)"
      by (subst sample_loop.simps) (simp add: Let_def pos inv smp thr nl)
    also have "\<dots> = \<lparr>is_hit = False, ray_pos_out = (0, 0, 0), color_out = c,
                       last_pos = (0, 0, 0), cnt_out = 513\<rparr>"
      by (rule "1.hyps" [OF refl refl refl refl _ refl nl _ le])
         (simp_all add: pos inv smp thr)
    finally show ?thesis .
  qed
qed

theorem sample_interaction_bounded_witness:
  "unat (cnt_out (sample_interaction (demo_scene 0 0) 1 (0, 0, 0) (0, 0, 0) 80 (1, 1, 1, 1))) = 513 \<and>
   512 < cnt_out (sample_interaction (demo_scene 0 0) 1 (0, 0, 0) (0, 0, 0) 80 (1, 1, 1, 1)) \<and>
   \<not> is_hit (sample_interaction (demo_scene 0 0) 1 (0, 0, 0) (0, 0, 0) 80 (1, 1, 1, 1)) \<and>
   \<not> in_volume (last_pos (sample_interaction (demo_scene 0 0) 1 (2, 0, 0) (0, 0, 0) 80 (1, 1, 1, 1))) \<and>
   \<not> is_hit (sample_interaction (demo_scene 0 0) 1 (2, 0, 0) (0, 0, 0) 80 (1, 1, 1, 1)) \<and>
   trace_volume (demo_scene 0 0) 1 (2, 0, 0) (0, 0, 0) 0 80 = (1, 1, 1)"
proof -
  have a: "sample_interaction (demo_scene 0 0) 1 (0, 0, 0) (0, 0, 0) 80 (1, 1, 1, 1) =
     \<lparr>is_hit = False, ray_pos_out = (0, 0, 0), color_out = (1, 1, 1, 1),
      last_pos = (0, 0, 0), cnt_out = 513\<rparr>"
    unfolding sample_interaction_def by (rule still_ray_loop) simp
  have b: "last_pos (sample_interaction (demo_scene 0 0) 1 (2, 0, 0) (0, 0, 0) 80 (1, 1, 1, 1)) = (2, 0, 0)"
    unfolding sample_interaction_def
    by (subst sample_loop.simps) (simp add: Let_def vadd_def smul_def in_volume_def)
  have c: "\<not> in_volume (2, 0, 0)" by (simp add: in_volume_def)
  have d: "vadd (2, 0, 0) (smul 0 (0, 0, 0)) = (2, 0, 0)" by (simp add: vadd_def smul_def)
  from sample_interaction_bounded [of "demo_scene 0 0" 1 "(0, 0, 0)" "(0, 0, 0)" 80 "(1, 1, 1, 1)"]
    sample_interaction_bounded [of "demo_scene 0 0" 1 "(2, 0, 0)" "(0, 0, 0)" 80 "(1, 1, 1, 1)" 0]
  show ?thesis
    by (simp add: a b c d)
qed

subsection \<open>Progressive accumulation as a running mean\<close>

lemma unat_succ_uint: "iter + 1 \<noteq> 0 \<Longrightarrow> unat (iter + 1) = unat iter + 1" for iter :: uint
  using unatSuc [of iter] by (simp add: add.commute)

text \<open>
  What the accumulation does while the counter has not wrapped. For a ray that hits the
  volume, the kernel hands the new sample to the accumulation image at iteration 0, and at
  every iteration \<open>n\<close> with \<open>0 < n < 2^32 - 1\<close> it hands over
  \<open>mean + (sample - mean) / (n + 1)\<close>, where \<open>mean\<close> is the value read from the incoming
  accumulation image; the alpha channel written is 1.
\<close>

lemma running_mean_below_wrap:
  assumes "\<not> (imgEss rp \<noteq> 0 \<and> lastHit = 0)"
    and "intersectBox camPos rayDir = (True, Fin tnear, Fin tfar)" and "0 \<le> tfar"
    and "sample = trace_volume sc (ParallelRNG3 (fst texCoords) (snd texCoords) (seed rp))
                    camPos rayDir tnear 80"
  shows "(iteration rp = 0 \<longrightarrow>
            (\<exists>w. volumeRender sc rp texCoords lastHit mean camPos rayDir = Some w \<and>
                 outAccumulate w = Some (rgb1 sample))) \<and>
         (0 < unat (iteration rp) \<and> unat (iteration rp) < 2 ^ 32 - 1 \<longrightarrow>
            (\<exists>w. volumeRender sc rp texCoords lastHit mean camPos rayDir = Some w \<and>
                 outAccumulate w =
                   Some (rgb1 (vadd mean (smul (1 / (real (unat (iteration rp)) + 1))
                                            (vsub sample mean))))))"
proof (intro conjI impI)
  assume "iteration rp = 0"
  with assms show "\<exists>w. volumeRender sc rp texCoords lastHit mean camPos rayDir = Some w \<and>
                       outAccumulate w = Some (rgb1 sample)"
    by (simp add: volumeRender_def accumulate_def Let_def)
next
  assume n: "0 < unat (iteration rp) \<and> unat (iteration rp) < 2 ^ 32 - 1"
  then have nz: "iteration rp \<noteq> 0" by (auto simp: unat_eq_zero)
  have "iteration rp \<noteq> - 1"
  proof
    assume "iteration rp = - 1"
    then have "unat (iteration rp) = 2 ^ 32 - 1"
      by (simp add: unsigned_minus_1_eq_mask mask_eq_exp_minus_1)
    with n show False by simp
  qed
  then have nw: "iteration rp + 1 \<noteq> 0"
    by (simp add: add_eq_0_iff2)
  have "real (unat (iteration rp + 1)) = real (unat (iteration rp)) + 1"
    by (simp add: unat_succ_uint [OF nw])
  with assms nz nw
  show "\<exists>w. volumeRender sc rp texCoords lastHit mean camPos rayDir = Some w \<and>
            outAccumulate w =
              Some (rgb1 (vadd mean (smul (1 / (real (unat (iteration rp)) + 1))
                                       (vsub sample mean))))"
    by (simp add: volumeRender_def accumulate_def Let_def)
qed

text \<open>A ray along the x axis from outside the unit cube crosses it from 1 to 3.\<close>

lemma axis_ray_hits: "intersectBox (- 2, 0, 0) (1, 0, 0) = (True, Fin 1, Fin 3)"
  by (simp add: intersectBox_def slab_def native_recip_def xscale_def xmin_def xmax_def Let_def)

text \<open>
  Claim C8 at the last value of the iteration counter. The kernel computes the divisor
  \<open>iteration + 1\<close> in \<open>uint\<close>; at iteration \<open>2^32 - 1\<close> it wraps to 0, and what the
  work-item hands to the accumulation image is the quotient of a division by zero instead
  of \<open>mean + (sample - mean) / 2^32\<close>: the model has no colour for it. One iteration
  earlier the kernel still writes the running mean.
\<close>

theorem accumulate_divides_by_wrapped_count:
  "iteration ((rendering (init_state 16384))\<lparr>iteration := 4294967295\<rparr>) + 1 = 0 \<and>
   volumeRender (demo_scene 0 0) ((rendering (init_state 16384))\<lparr>iteration := 4294967295\<rparr>)
     (0, 0) 0 (0, 0, 0) (- 2, 0, 0) (1, 0, 0) = None \<and>
   (\<exists>w. volumeRender (demo_scene 0 0) ((rendering (init_state 16384))\<lparr>iteration := 4294967294\<rparr>)
           (0, 0) 0 (0, 0, 0) (- 2, 0, 0) (1, 0, 0) = Some w \<and>
        outAccumulate w =
          Some (rgb1 (smul (1 / 4294967295)
             (trace_volume (demo_scene 0 0) (ParallelRNG3 0 0 42) (- 2, 0, 0) (1, 0, 0) 1 80))))"
proof -
  let ?rp = "(rendering (init_state 16384))\<lparr>iteration := 4294967294\<rparr>"
  have e: "\<not> (imgEss ?rp \<noteq> 0 \<and> (0 :: uint) = 0)" by (simp add: init_state_def)
  have p: "(0 :: real) \<le> 3" by simp
  have u: "unat (iteration ?rp) = 4294967294" by simp
  have s: "seed ?rp = 42" by (simp add: init_state_def)
  from running_mean_below_wrap [OF e axis_ray_hits p refl,
        where texCoords = "(0, 0)" and sc = "demo_scene 0 0" and mean = "(0, 0, 0)"]
  have "\<exists>w. volumeRender (demo_scene 0 0) ?rp (0, 0) 0 (0, 0, 0) (- 2, 0, 0) (1, 0, 0) = Some w \<and>
        outAccumulate w =
          Some (rgb1 (vadd (0, 0, 0) (smul (1 / (real (unat (iteration ?rp)) + 1))
             (vsub (trace_volume (demo_scene 0 0) (ParallelRNG3 0 0 (seed ?rp))
                      (- 2, 0, 0) (1, 0, 0) 1 80) (0, 0, 0)))))"
    unfolding u by simp
  moreover have "vadd (0, 0, 0) (smul k (vsub v (0, 0, 0))) = smul k v" for k v
    by (cases v) (simp add: vadd_def smul_def vsub_def)
  ultimately have b: "\<exists>w. volumeRender (demo_scene 0 0) ?rp (0, 0) 0 (0, 0, 0) (- 2, 0, 0) (1, 0, 0)
        = Some w \<and> outAccumulate w =
          Some (rgb1 (smul (1 / 4294967295)
             (trace_volume (demo_scene 0 0) (ParallelRNG3 0 0 42) (- 2, 0, 0) (1, 0, 0) 1 80)))"
    by (simp add: s u)
  have a: "volumeRender (demo_scene 0 0) ((rendering (init_state 16384))\<lparr>iteration := 4294967295\<rparr>)
     (0, 0) 0 (0, 0, 0) (- 2, 0, 0) (1, 0, 0) = None"
    by (simp add: volumeRender_def axis_ray_hits accumulate_def Let_def init_state_def)
  from a b show ?thesis by simp
qed

text \<open>The work-item of C8 at the wrapped count, on its own: it has no colour to write.\<close>

theorem accumulate_divides_by_wrapped_count_witness:
  "volumeRender (demo_scene 0 0) ((rendering (init_state 16384))\<lparr>iteration := 4294967295\<rparr>)
     (0, 0) 0 (0, 0, 0) (- 2, 0, 0) (1, 0, 0) = None"
  using accumulate_divides_by_wrapped_count by blast

subsection \<open>The compositing step\<close>

lemma vw_with_xyz [simp]: "vw (with_xyz v a) = vw v"
  by (cases a) (simp add: with_xyz_def vw_def)

lemma xyz_with_xyz [simp]: "xyz (with_xyz v a) = a"
  by (cases a) (simp add: with_xyz_def xyz_def)

lemma vw_with_w [simp]: "vw (with_w v w) = w"
  by (cases v) (simp add: with_w_def vw_def)

lemma xyz_with_w [simp]: "xyz (with_w v w) = xyz v"
  by (cases v) (simp add: with_w_def xyz_def)

lemma composite_fields [simp]:
  "r_t (composite ry s) = r_t s"
  "r_pos (composite ry s) = r_pos s"
  "r_tfColor (composite ry s) = r_tfColor s"
  "r_density (composite ry s) = r_density s"
  by (simp_all add: composite_def Let_def)

lemma ray_sample_fields [simp]:
  "r_t (ray_sample sc rp rc ry s) = r_t s"
  "r_alpha (ray_sample sc rp rc ry s) = r_alpha s"
  "r_result (ray_sample sc rp rc ry s) = r_result s"
  by (simp_all add: ray_sample_def Let_def split: prod.splits)

lemma ambient_fields [simp]:
  "r_t (ambient sc s) = r_t s"
  "r_alpha (ambient sc s) = r_alpha s"
  by (simp_all add: ambient_def Let_def)

text \<open>
  One step of the compositing with a sample alpha in \<open>[0, 1]\<close> and a positive exponent:
  the opacity is in \<open>[0, 1]\<close>, and the accumulated alpha does not decrease and stays at
  most 1.
\<close>

lemma composite_step:
  assumes "0 < ray_refSamplingInterval ry"
    and "0 \<le> vw (r_tfColor s)" and "vw (r_tfColor s) \<le> 1"
    and "0 \<le> r_alpha s" and "r_alpha s \<le> 1"
  shows "0 \<le> r_opacity (composite ry s)" and "r_opacity (composite ry s) \<le> 1"
    and "r_alpha s \<le> r_alpha (composite ry s)" and "r_alpha (composite ry s) \<le> 1"
proof -
  let ?p = "(1 - vw (r_tfColor s)) powr ray_refSamplingInterval ry"
  let ?o = "1 - ?p"
  have p0: "0 \<le> ?p" by simp
  have p1: "?p \<le> 1"
    using assms(1,2,3) by (intro powr_le1) simp_all
  have o: "r_opacity (composite ry s) = ?o"
    and a: "r_alpha (composite ry s) = r_alpha s + ?o * (1 - r_alpha s)"
    by (simp_all add: composite_def Let_def)
  show "0 \<le> r_opacity (composite ry s)" "r_opacity (composite ry s) \<le> 1"
    using p0 p1 by (simp_all add: o)
  have "0 \<le> ?o * (1 - r_alpha s)"
    using p1 assms(5) by (intro mult_nonneg_nonneg) simp_all
  then show "r_alpha s \<le> r_alpha (composite ry s)" by (simp add: a)
  have "r_alpha (composite ry s) = 1 - ?p * (1 - r_alpha s)"
    by (simp add: a algebra_simps)
  moreover have "0 \<le> ?p * (1 - r_alpha s)"
    using p0 assms(5) by (intro mult_nonneg_nonneg) simp_all
  ultimately show "r_alpha (composite ry s) \<le> 1" by simp
qed

lemma vw_shade_density [simp]: "vw (shade_density sc rp rc rayDir pos c) = vw c"
  by (simp add: shade_density_def Let_def split: prod.splits)

lemma demo_render_params:
  "illumType (rendering demo_render) = 0"
  "useLinear (rendering demo_render) = 1"
  "showEss (rendering demo_render) = 0"
  "backgroundColor (rendering demo_render) = (1, 1, 1, 1)"
  "imgEss (rendering demo_render) = 0"
  "useGradient (rendering demo_render) = 0"
  "technique (rendering demo_render) = 0"
  "seed (rendering demo_render) = 42"
  "iteration (rendering demo_render) = 0"
  "bbox_bl (camera demo_render) = (- 1, - 1, - 1)"
  "bbox_tr (camera demo_render) = (1, 1, 1)"
  by (simp_all add: demo_render_def updateSamplingRate_def setIllumination_def demo_loaded_eq
      init_state_def)

lemma demo_rc_params:
  "samplingRate demo_rc = 1" "aerial demo_rc = 0" "contours demo_rc = 0" "useAO demo_rc = 0"
  "brickRes demo_rc = (1, 1, 2)"
  "samplingRate demo_rc_aerial = 1" "aerial demo_rc_aerial = 1" "contours demo_rc_aerial = 0"
  "useAO demo_rc_aerial = 0" "brickRes demo_rc_aerial = (1, 1, 2)"
  by (simp_all add: demo_rc_def demo_rc_aerial_def demo_render_def updateSamplingRate_def
      setIllumination_def setAerial_def of_bool_uint_def demo_loaded_eq init_state_def)

subsection \<open>When the brick traversal skips a brick\<close>

text \<open>
  Claim C3, as amended, for the kernel of the grouped-argument revision built with
  \<open>-DESS\<close>. At every pass of the brick-traversal loop, that is, while \<open>t < tfar\<close>, the
  brick of the current cell is classified as fully transparent and skipped without
  sampling its interior if and only if the transfer-function alpha at the brick's maximum
  density is below \<open>10^-6\<close> and the alpha prefix sums looked up at its minimum and
  maximum densities are equal. A skipped brick moves \<open>t\<close> to the brick's exit distance
  and leaves the compositing state as it was; any other brick is handed to the
  ray-casting loop from \<open>t\<close> to the exit distance.
\<close>

theorem ess_loop_skips_iff:
  assumes "r_t s < ray_tfar ry" and "dda_advance ry dc d (r_t s) = (d1, t_exit)"
  shows "(brick_skipped sc (volBrick sc (dda_cell d)) \<longleftrightarrow>
            vw (tffData sc (snd (volBrick sc (dda_cell d)))) < 1 / 1000000 \<and>
            tffPrefix sc (fst (volBrick sc (dda_cell d))) =
              tffPrefix sc (snd (volBrick sc (dda_cell d)))) \<and>
         (brick_skipped sc (volBrick sc (dda_cell d)) \<longrightarrow>
            ess_loop (Suc n) m sc rp rc ry dc d s =
              ess_loop n m sc rp rc ry dc d1 (s\<lparr>r_t := t_exit\<rparr>)) \<and>
         (\<not> brick_skipped sc (volBrick sc (dda_cell d)) \<longrightarrow>
            ess_loop (Suc n) m sc rp rc ry dc d s =
              (case ray_loop m sc rp rc ry t_exit s of
                 None \<Rightarrow> None
               | Some s1 \<Rightarrow>
                   if r_t s1 \<ge> ray_tfar ry \<or> r_alpha s1 > ERT_THRESHOLD then Some s1
                   else if any3 (zip3 (=) (dda_cell d1) (dda_exit dc)) then Some s1
                   else ess_loop n m sc rp rc ry dc d1 (s1\<lparr>r_t := t_exit\<rparr>)))"
  using assms by (simp add: brick_skipped_def Let_def)

subsection \<open>Rays through a fully transparent transfer function\<close>

lemma with_xyz_same [simp]: "with_xyz v (xyz v) = v"
  by (cases v) (simp add: with_xyz_def xyz_def vw_def)

lemma vsub_smul_zero [simp]: "vsub a (smul 0 b) = a"
  by (cases a, cases b) (simp add: vsub_def smul_def)














text \<open>A ray that the box test reports as a hit over finite distances has \<open>tnear < tfar\<close>.\<close>

lemma hit_interval:
  "intersectBBox camPos rayDir lower upper = (True, Fin tn, Fin tf) \<Longrightarrow> tn < tf"
  by (auto simp: intersectBBox_def Let_def split: prod.splits)






lemma volumeRender_grouped_cast:
  assumes "\<not> (imgEss rp \<noteq> 0 \<and> lastHit = 0)"
    and "intersectBBox camPos rayDir (bbox_bl cam) (bbox_tr cam) = (True, Fin tn, Fin tf)"
    and "\<not> tf < 0" and "technique rp \<noteq> 1"
  shows "volumeRender_grouped ess fuel sc env cam rp rc pt globalId lastHit prevCol camPos rayDir =
         (case ray_setup sc rp rc globalId (environment_colour rp env rayDir) camPos rayDir tn tf of
            None \<Rightarrow> Not_finite
          | Some ry \<Rightarrow>
              if ess \<and> \<not> dda_finite rc rayDir then Not_finite
              else
                case (if ess
                      then ess_loop fuel fuel sc rp rc ry (dda_setup sc rc ry)
                             (dda_start sc rc ry) (ray_start ry)
                      else ray_loop fuel sc rp rc ry (ray_tfar ry) (ray_start ry)) of
                  None \<Rightarrow> Out_of_fuel
                | Some s \<Rightarrow> raycast_pixel rp prevCol (finish rp ry s))"
  using assms(1,3,4) hit_interval [OF assms(2)]
  by (auto simp: volumeRender_grouped_def Let_def assms(2))




subsection \<open>A ray inside one brick\<close>



subsection \<open>The two builds on the demo rays\<close>

lemma sqrt_49_9: "sqrt (49 / 9) = 7 / 3"
  by (rule real_sqrt_unique) (simp_all add: power2_eq_square)

lemma sqrt_9_4: "sqrt (9 / 4) = 3 / 2"
  by (rule real_sqrt_unique) (simp_all add: power2_eq_square)

lemma demo_environment_rp:
  assumes "backgroundColor rp = (1, 1, 1, 1)" and "useGradient rp = 0"
  shows "environment_colour rp None d = (1, 1, 1, 1)"
  by (cases d) (simp add: environment_colour_def assms)

lemma demo_environment: "environment_colour (rendering demo_render) None d = (1, 1, 1, 1)"
  by (rule demo_environment_rp) (simp_all add: demo_render_params)


lemma demo_intersect:
  "intersectBBox demo_cam demo_dir (- 1, - 1, - 1) (1, 1, 1) = (True, Fin 13, Fin (91 / 6))"
  "intersectBBox demo_cam_edge demo_dir (- 1, - 1, - 1) (1, 1, 1) = (True, Fin 13, Fin (91 / 6))"
  "intersectBBox demo_cam_low demo_dir (- 1, - 1, - 1) (1, 1, 1) = (True, Fin 13, Fin (91 / 6))"
  by (simp_all add: intersectBBox_def slab_def native_recip_def xscale_def xmin_def xmax_def
      Let_def demo_cam_def demo_cam_edge_def demo_cam_low_def demo_dir_def)

lemma demo_ray_setup:
  assumes "samplingRate rc = 1" and "seed rp = 42"
    and "volRes sc = (1, 1, 2)"
  shows "ray_setup sc rp rc (0, 0) (1, 1, 1, 1) cam demo_dir 13 (91 / 6) = Some (demo_ray cam)"
proof -
  have len: "length3 (vmul (smul (13 / 6) demo_dir) (1, 1, 2)) = 7 / 3"
    by (simp add: length3_def dot3_def vmul_def smul_def demo_dir_def sqrt_49_9)
  have l2: "length3 (1, 1, 1 / 2) = 3 / 2"
    by (simp add: length3_def dot3_def sqrt_9_4)
  have c: "\<lceil>(7 :: real) / 3\<rceil> = 3" by (simp add: ceiling_eq_iff)
  have st: "(13 :: real) / (6 * min (13 / 6) (13 / 14)) = 7 / 3" by simp
  show ?thesis
    by (simp add: ray_setup_def Let_def assms vdiv_def splat_def of_int3_def len l2 st c
        demo_ray_def)
qed

lemma demo_ray_fields:
  "ray_tfar (demo_ray cam) = 91 / 6" "ray_stepSize (demo_ray cam) = 13 / 18"
  "ray_tnear (demo_ray cam) = 13" "ray_refSamplingInterval (demo_ray cam) = 1"
  "ray_rayDir (demo_ray cam) = demo_dir" "ray_camPos (demo_ray cam) = cam"
  "ray_envirCol (demo_ray cam) = (1, 1, 1, 1)" "ray_sampleDist (demo_ray cam) = 13 / 6"
  "ray_voxLen (demo_ray cam) = (1, 1, 1 / 2)"
  by (simp_all add: demo_ray_def)

lemma demo_start:
  "ray_start (demo_ray cam) =
     \<lparr>r_t = 13, r_alpha = 0, r_result = (1, 1, 1, 1), r_pos = (0, 0, 0), r_density = 0,
      r_tfColor = (0, 0, 0, 0), r_opacity = 0\<rparr>"
  by (simp add: ray_start_def demo_ray_fields)

lemma bit_flags [simp]:
  "\<not> bit (of_bool_uint b) 31" "bit (vec_true b) 31 = b"
  by (simp_all add: of_bool_uint_def vec_true_def bit_1_iff)

lemma sint_vec_true [simp]: "sint (vec_true b) = (if b then - 1 else 0)"
  by (simp add: vec_true_def)

lemma demo_dda_finite: "brickRes rc = (1, 1, 2) \<Longrightarrow> dda_finite rc demo_dir"
  by (simp add: dda_finite_def demo_dir_def)

lemma demo_brick_len: "brickRes rc = (1, 1, 2) \<Longrightarrow> brick_len rc = (1, 1, 1 / 2)"
  by (simp add: brick_len_def vdiv_def splat_def)

lemma demo_inv_ray: "inv_ray demo_dir = (13 / 12, 13 / 4, 13 / 3)"
  by (simp add: inv_ray_def zip3_def vdiv_def splat_def demo_dir_def select_msb_def)

lemma demo_dda_setup:
  assumes "brickRes rc = (1, 1, 2)"
  shows "dda_setup (demo_scene a a8) rc (demo_ray cam) =
     \<lparr>dda_step = (1, 1, 1), dda_deltaT = (13 / 6, 13 / 2, 13 / 3), dda_exit = (1, 1, 2),
      dda_brickDia = 3\<rparr>"
proof -
  have l: "length3 (1, 1, 1 / 2) = 3 / 2"
    by (simp add: length3_def dot3_def sqrt_9_4)
  have s: "map3 (\<lambda>d. select_msb \<lfloor>sgn d\<rfloor> 1 (of_bool_uint (approxEq d 0))) demo_dir = (1, 1, 1)"
    by (simp add: map3_def demo_dir_def select_msb_def)
  show ?thesis
    by (simp add: dda_setup_def Let_def demo_ray_fields s demo_brick_len [OF assms] demo_inv_ray l)
       (simp add: demo_scene_def zip3_def map3_def select_msb_def vmul_def smul_def of_int3_def)
qed

lemma demo_dda_start:
  assumes "brickRes rc = (1, 1, 2)"
  shows "dda_start (demo_scene a a8) rc (demo_ray demo_cam) =
           \<lparr>dda_cell = (0, 0, 0), dda_tv = (91 / 6, 52 / 3, 169 / 12)\<rparr>"
    and "dda_start (demo_scene a a8) rc (demo_ray demo_cam_edge) =
           \<lparr>dda_cell = (0, 0, 0), dda_tv = (91 / 6, 91 / 6, 169 / 12)\<rparr>"
    and "dda_start (demo_scene a a8) rc (demo_ray demo_cam_low) =
           \<lparr>dda_cell = (0, 0, 0), dda_tv = (91 / 6, 52 / 3, 65 / 4)\<rparr>"
  by (simp_all add: dda_start_def Let_def demo_ray_fields demo_brick_len [OF assms] demo_inv_ray
      demo_inv_ray [unfolded demo_dir_def]
      demo_scene_def demo_cam_def demo_cam_edge_def demo_cam_low_def demo_dir_def zip3_def map3_def vmul_def
      smul_def vadd_def vsub_def vdiv_def splat_def of_int3_def clamp_i_def)

text \<open>One sample and compositing step in the demo scene, without and with the depth cue.\<close>

lemma demo_step:
  assumes "0 \<le> a" "a \<le> 1"
  shows "composite (demo_ray cam) (ray_sample (demo_scene a a8) (rendering demo_render) demo_rc
            (demo_ray cam) s) =
         s\<lparr>r_pos := vadd (smul (1 / 2) (vadd cam (smul (r_t s - ray_offset (demo_ray cam)) demo_dir)))
                      (splat (1 / 2)),
           r_density := 1,
           r_tfColor := (1, 1, 1, a),
           r_opacity := a,
           r_result := with_xyz (r_result s)
                         (vsub (xyz (r_result s)) (smul (a * (1 - r_alpha s)) (1, 1, 1))),
           r_alpha := r_alpha s + a * (1 - r_alpha s)\<rparr>"
proof -
  have sm: "ray_sample (demo_scene a a8) (rendering demo_render) demo_rc (demo_ray cam) s =
        s\<lparr>r_pos := vadd (smul (1 / 2) (vadd cam (smul (r_t s - ray_offset (demo_ray cam)) demo_dir)))
                      (splat (1 / 2)),
           r_density := 1,
           r_tfColor := (1, 1, 1, a)\<rparr>"
    by (simp add: ray_sample_def Let_def demo_render_params demo_rc_params demo_scene_def
        shade_density_def vx_def with_xyz_def xyz_def vsub_def vw_def demo_ray_fields)
  show ?thesis
    unfolding sm using assms
    by (simp add: composite_def Let_def demo_ray_fields vw_def xyz_def)
qed

lemma demo_step_aerial:
  assumes "a * (1 - (r_t s - 13) / (13 / 6)) \<le> 1"
  shows "composite (demo_ray cam) (ray_sample (demo_scene a a8) (rendering demo_render)
            demo_rc_aerial (demo_ray cam) s) =
         s\<lparr>r_pos := vadd (smul (1 / 2) (vadd cam (smul (r_t s - ray_offset (demo_ray cam)) demo_dir)))
                      (splat (1 / 2)),
           r_density := 1,
           r_tfColor := (1, 1, 1, a * (1 - (r_t s - 13) / (13 / 6))),
           r_opacity := a * (1 - (r_t s - 13) / (13 / 6)),
           r_result := with_xyz (r_result s)
                         (vsub (xyz (r_result s))
                            (smul (a * (1 - (r_t s - 13) / (13 / 6)) * (1 - r_alpha s)) (1, 1, 1))),
           r_alpha := r_alpha s + a * (1 - (r_t s - 13) / (13 / 6)) * (1 - r_alpha s)\<rparr>"
proof -
  have sm: "ray_sample (demo_scene a a8) (rendering demo_render) demo_rc_aerial (demo_ray cam) s =
        s\<lparr>r_pos := vadd (smul (1 / 2) (vadd cam (smul (r_t s - ray_offset (demo_ray cam)) demo_dir)))
                      (splat (1 / 2)),
           r_density := 1,
           r_tfColor := (1, 1, 1, a * (1 - (r_t s - 13) / (13 / 6)))\<rparr>"
    by (simp add: ray_sample_def Let_def demo_render_params demo_rc_params demo_scene_def
        shade_density_def vx_def with_xyz_def with_w_def xyz_def vsub_def vw_def demo_ray_fields)
  show ?thesis
    unfolding sm using assms
    by (simp add: composite_def Let_def demo_ray_fields vw_def xyz_def)
qed

lemma demo_finish:
  "finish (rendering demo_render) ry s = with_w (r_result s) (r_alpha s)"
  by (simp add: finish_def demo_render_params)

lemma demo_pixel:
  "raycast_pixel (rendering demo_render) prevCol c =
     Done \<lparr>outImg = Some c, outAccumulate = Some c\<rparr>"
  by (simp add: raycast_pixel_def accumulate_def demo_render_params)

text \<open>The kernel on the demo rays, reduced to its loops.\<close>

lemma demo_kernel_rp:
  assumes "samplingRate rc = 1" and "brickRes rc = (1, 1, 2)"
    and "cam = demo_cam \<or> cam = demo_cam_edge \<or> cam = demo_cam_low"
    and "volRes sc = (1, 1, 2)"
    and "seed rp = 42" and "backgroundColor rp = (1, 1, 1, 1)" and "useGradient rp = 0"
    and "imgEss rp = 0" and "technique rp = 0"
  shows "volumeRender_grouped ess fuel sc None (camera demo_render) rp rc pt (0, 0) lastHit
           prevCol cam demo_dir =
         (case (if ess
                then ess_loop fuel fuel sc rp rc (demo_ray cam) (dda_setup sc rc (demo_ray cam))
                       (dda_start sc rc (demo_ray cam)) (ray_start (demo_ray cam))
                else ray_loop fuel sc rp rc (demo_ray cam) (91 / 6) (ray_start (demo_ray cam))) of
            None \<Rightarrow> Out_of_fuel
          | Some s \<Rightarrow> raycast_pixel rp prevCol (finish rp (demo_ray cam) s))"
proof -
  have e: "\<not> (imgEss rp \<noteq> 0 \<and> lastHit = 0)" by (simp add: assms)
  have ib: "intersectBBox cam demo_dir (bbox_bl (camera demo_render)) (bbox_tr (camera demo_render))
              = (True, Fin 13, Fin (91 / 6))"
    using assms(3) demo_intersect by (auto simp: demo_render_params)
  have nn: "\<not> (91 / 6 :: real) < 0" by simp
  have t: "technique rp \<noteq> 1" by (simp add: assms)
  show ?thesis
    unfolding volumeRender_grouped_cast [OF e ib nn t]
    by (simp add: demo_environment_rp [OF assms(6,7)] demo_ray_setup [OF assms(1,5,4)]
        demo_dda_finite [OF assms(2)] demo_ray_fields del: ray_loop.simps ess_loop.simps)
qed

lemma demo_volRes: "volRes (demo_scene a a8) = (1, 1, 2)" "volRes demo_rgba_scene = (1, 1, 2)"
  by (simp_all add: demo_scene_def demo_rgba_scene_def)

lemma demo_kernel:
  assumes "samplingRate rc = 1" and "brickRes rc = (1, 1, 2)"
    and "cam = demo_cam \<or> cam = demo_cam_edge \<or> cam = demo_cam_low"
    and "volRes sc = (1, 1, 2)"
  shows "volumeRender_grouped ess fuel sc None (camera demo_render)
           (rendering demo_render) rc (pathtrace demo_render) (0, 0) 1 prevCol cam demo_dir =
         (case (if ess
                then ess_loop fuel fuel sc (rendering demo_render) rc (demo_ray cam)
                       (dda_setup sc rc (demo_ray cam))
                       (dda_start sc rc (demo_ray cam)) (ray_start (demo_ray cam))
                else ray_loop fuel sc (rendering demo_render) rc (demo_ray cam)
                       (91 / 6) (ray_start (demo_ray cam))) of
            None \<Rightarrow> Out_of_fuel
          | Some s \<Rightarrow> Done \<lparr>outImg = Some (with_w (r_result s) (r_alpha s)),
                             outAccumulate = Some (with_w (r_result s) (r_alpha s))\<rparr>)"
  unfolding demo_kernel_rp [OF assms demo_render_params(8,4,6,5,7)]
  by (simp add: demo_finish demo_pixel del: ray_loop.simps ess_loop.simps split: option.splits)



lemma demo_advance_1:
  assumes "brickRes rc = (1, 1, 2)"
  shows "dda_advance (demo_ray demo_cam) (dda_setup (demo_scene a a8) rc (demo_ray demo_cam))
           (dda_start (demo_scene a a8) rc (demo_ray demo_cam)) 13 =
         (\<lparr>dda_cell = (0, 0, 1), dda_tv = (91 / 6, 52 / 3, 221 / 12)\<rparr>, 169 / 12)"
  by (simp add: dda_advance_def demo_dda_setup [OF assms] demo_dda_start [OF assms] Let_def
      demo_ray_fields zip3_def map3_def dot3_def splat_def vmul_def vadd_def clamp_f_def)

lemma demo_advance_2:
  assumes "brickRes rc = (1, 1, 2)"
  shows "dda_advance (demo_ray demo_cam) (dda_setup (demo_scene a a8) rc (demo_ray demo_cam))
           \<lparr>dda_cell = (0, 0, 1), dda_tv = (91 / 6, 52 / 3, 221 / 12)\<rparr> (169 / 12) =
         (\<lparr>dda_cell = (1, 0, 1), dda_tv = (52 / 3, 52 / 3, 221 / 12)\<rparr>, 91 / 6)"
  by (simp add: dda_advance_def demo_dda_setup [OF assms] Let_def demo_ray_fields
      zip3_def map3_def dot3_def splat_def vmul_def vadd_def clamp_f_def)

lemma demo_not_skipped: "\<not> brick_skipped (demo_scene (1 / 5) 51) (volBrick (demo_scene (1 / 5) 51) c)"
  by (simp add: brick_skipped_def demo_scene_def vw_def Let_def)

lemma demo_ess_loop:
  "\<exists>s'. ess_loop 8 8 (demo_scene (1 / 5) 51) (rendering demo_render) demo_rc (demo_ray demo_cam)
          (dda_setup (demo_scene (1 / 5) 51) demo_rc (demo_ray demo_cam))
          (dda_start (demo_scene (1 / 5) 51) demo_rc (demo_ray demo_cam))
          (ray_start (demo_ray demo_cam)) = Some s' \<and>
        r_alpha s' = 369 / 625 \<and> r_result s' = (256 / 625, 256 / 625, 256 / 625, 1)"
proof -
  let ?sc = "demo_scene (1 / 5) 51"
  let ?rp = "rendering demo_render"
  let ?ry = "demo_ray demo_cam"
  note b = demo_rc_params(5)
  have s0: "r_t (ray_start ?ry) = 13" by (simp add: demo_start)
  obtain s1 where
    l1: "ray_loop 8 ?sc ?rp demo_rc ?ry (169 / 12) (ray_start ?ry) = Some s1"
    and f1: "r_t s1 = 130 / 9" "r_alpha s1 = 9 / 25" "r_result s1 = (16 / 25, 16 / 25, 16 / 25, 1)"
  proof -
    have "\<exists>s1. ray_loop 8 ?sc ?rp demo_rc ?ry (169 / 12) (ray_start ?ry) = Some s1 \<and>
          r_t s1 = 130 / 9 \<and> r_alpha s1 = 9 / 25 \<and> r_result s1 = (16 / 25, 16 / 25, 16 / 25, 1)"
      by (simp add: eval_nat_numeral demo_step Let_def demo_ray_fields demo_start
          demo_rc_params ERT_THRESHOLD_def with_xyz_def xyz_def vsub_def smul_def vw_def)
    then show ?thesis using that by blast
  qed
  obtain s2 where
    l2: "ray_loop 8 ?sc ?rp demo_rc ?ry (91 / 6) (s1\<lparr>r_t := 169 / 12\<rparr>) = Some s2"
    and f2: "r_t s2 = 559 / 36" "r_alpha s2 = 369 / 625"
       "r_result s2 = (256 / 625, 256 / 625, 256 / 625, 1)"
  proof -
    have "\<exists>s2. ray_loop 8 ?sc ?rp demo_rc ?ry (91 / 6) (s1\<lparr>r_t := 169 / 12\<rparr>) = Some s2 \<and>
          r_t s2 = 559 / 36 \<and> r_alpha s2 = 369 / 625 \<and>
          r_result s2 = (256 / 625, 256 / 625, 256 / 625, 1)"
      by (simp add: eval_nat_numeral demo_step Let_def demo_ray_fields f1
          demo_rc_params ERT_THRESHOLD_def with_xyz_def xyz_def vsub_def smul_def vw_def)
    then show ?thesis using that by blast
  qed
  have e: "dda_exit (dda_setup ?sc demo_rc ?ry) = (1, 1, 2)" by (simp add: demo_dda_setup [OF b])
  have "ess_loop (Suc (Suc n)) 8 ?sc ?rp demo_rc ?ry (dda_setup ?sc demo_rc ?ry)
          (dda_start ?sc demo_rc ?ry) (ray_start ?ry) = Some s2" for n
    by (simp add: s0 demo_ray_fields demo_advance_1 [OF b] demo_advance_2 [OF b] demo_not_skipped
        Let_def l1 f1 l2 f2 e ERT_THRESHOLD_def any3_def zip3_def del: ray_loop.simps)
  from this [of 6]
  have "ess_loop 8 8 ?sc ?rp demo_rc ?ry (dda_setup ?sc demo_rc ?ry) (dda_start ?sc demo_rc ?ry)
          (ray_start ?ry) = Some s2"
    by (simp add: eval_nat_numeral del: ess_loop.simps)
  with f2 show ?thesis by simp
qed

lemma demo_ess:
  "volumeRender_grouped True 8 (demo_scene (1 / 5) 51) None (camera demo_render)
     (rendering demo_render) demo_rc (pathtrace demo_render) (0, 0) 1 (0, 0, 0) demo_cam demo_dir =
   Done \<lparr>outImg = Some (256 / 625, 256 / 625, 256 / 625, 369 / 625),
         outAccumulate = Some (256 / 625, 256 / 625, 256 / 625, 369 / 625)\<rparr>"
proof -
  from demo_ess_loop obtain s' where
    "ess_loop 8 8 (demo_scene (1 / 5) 51) (rendering demo_render) demo_rc (demo_ray demo_cam)
          (dda_setup (demo_scene (1 / 5) 51) demo_rc (demo_ray demo_cam))
          (dda_start (demo_scene (1 / 5) 51) demo_rc (demo_ray demo_cam))
          (ray_start (demo_ray demo_cam)) = Some s'"
    "r_alpha s' = 369 / 625" "r_result s' = (256 / 625, 256 / 625, 256 / 625, 1)"
    by blast
  then show ?thesis
    unfolding demo_kernel [OF demo_rc_params(1,5) disjI1 [OF refl] demo_volRes(1)]
    by (simp add: with_w_def del: ess_loop.simps)
qed

subsection \<open>The brick traversal on the demo rays\<close>

text \<open>
  An instance of C3 on the first demo ray: the first brick, of constant density 1 under
  alpha \<open>1/5\<close>, is not skipped; under a fully transparent transfer function the same brick
  is skipped and the traversal goes on at the exit distance \<open>169/12\<close> with the next brick.
\<close>

theorem ess_loop_skips_iff_witness:
  "\<not> brick_skipped (demo_scene (1 / 5) 51)
       (volBrick (demo_scene (1 / 5) 51)
          (dda_cell (dda_start (demo_scene (1 / 5) 51) demo_rc (demo_ray demo_cam)))) \<and>
   brick_skipped (demo_scene 0 0)
       (volBrick (demo_scene 0 0) (dda_cell (dda_start (demo_scene 0 0) demo_rc (demo_ray demo_cam)))) \<and>
   ess_loop (Suc 7) 8 (demo_scene 0 0) (rendering demo_render) demo_rc (demo_ray demo_cam)
       (dda_setup (demo_scene 0 0) demo_rc (demo_ray demo_cam))
       (dda_start (demo_scene 0 0) demo_rc (demo_ray demo_cam)) (ray_start (demo_ray demo_cam)) =
     ess_loop 7 8 (demo_scene 0 0) (rendering demo_render) demo_rc (demo_ray demo_cam)
       (dda_setup (demo_scene 0 0) demo_rc (demo_ray demo_cam))
       \<lparr>dda_cell = (0, 0, 1), dda_tv = (91 / 6, 52 / 3, 221 / 12)\<rparr>
       ((ray_start (demo_ray demo_cam))\<lparr>r_t := 169 / 12\<rparr>)"
proof -
  let ?rp = "rendering demo_render"
  let ?ry = "demo_ray demo_cam"
  note b = demo_rc_params(5)
  have t: "r_t (ray_start ?ry) < ray_tfar ?ry"
    by (simp add: demo_start demo_ray_fields)
  have adv: "dda_advance ?ry (dda_setup (demo_scene 0 0) demo_rc ?ry)
               (dda_start (demo_scene 0 0) demo_rc ?ry) (r_t (ray_start ?ry)) =
             (\<lparr>dda_cell = (0, 0, 1), dda_tv = (91 / 6, 52 / 3, 221 / 12)\<rparr>, 169 / 12)"
    using demo_advance_1 [OF b, of 0 0] by (simp add: demo_start)
  have sk: "brick_skipped (demo_scene 0 0)
              (volBrick (demo_scene 0 0) (dda_cell (dda_start (demo_scene 0 0) demo_rc ?ry)))"
    by (simp add: brick_skipped_def Let_def demo_scene_def vw_def)
  from ess_loop_skips_iff [OF t adv, of "demo_scene 0 0" 7 8 ?rp demo_rc] sk demo_not_skipped
  show ?thesis by blast
qed

text \<open>
  The claim as stated fails: a brick of constant density has equal prefix sums at its
  minimum and maximum, whatever its opacity. Both bricks of the demo scene with alpha
  \<open>1/5\<close> are of this kind; the first is not skipped, and the kernel built with \<open>-DESS\<close>
  writes for the first demo ray a pixel that has taken up colour from the volume, over the
  white environment.
\<close>

theorem equal_prefix_not_skipped_counterexample:
  "tffPrefix (demo_scene (1 / 5) 51) (fst (volBrick (demo_scene (1 / 5) 51) (0, 0, 0))) =
   tffPrefix (demo_scene (1 / 5) 51) (snd (volBrick (demo_scene (1 / 5) 51) (0, 0, 0))) \<and>
   \<not> brick_skipped (demo_scene (1 / 5) 51) (volBrick (demo_scene (1 / 5) 51) (0, 0, 0)) \<and>
   environment_colour (rendering demo_render) None demo_dir = (1, 1, 1, 1) \<and>
   volumeRender_grouped True 8 (demo_scene (1 / 5) 51) None (camera demo_render)
     (rendering demo_render) demo_rc (pathtrace demo_render) (0, 0) 1 (0, 0, 0) demo_cam demo_dir =
   Done \<lparr>outImg = Some (256 / 625, 256 / 625, 256 / 625, 369 / 625),
         outAccumulate = Some (256 / 625, 256 / 625, 256 / 625, 369 / 625)\<rparr>"
  using demo_ess
  by (simp add: demo_environment demo_not_skipped) (simp add: demo_scene_def)

subsection \<open>The depth cue in the brick traversal\<close>

lemma demo_edge_advance_1:
  assumes "brickRes rc = (1, 1, 2)"
  shows "dda_advance (demo_ray demo_cam_edge)
           (dda_setup (demo_scene a a8) rc (demo_ray demo_cam_edge))
           (dda_start (demo_scene a a8) rc (demo_ray demo_cam_edge)) 13 =
         (\<lparr>dda_cell = (0, 0, 1), dda_tv = (91 / 6, 91 / 6, 221 / 12)\<rparr>, 169 / 12)"
  by (simp add: dda_advance_def demo_dda_setup [OF assms] demo_dda_start [OF assms] Let_def
      demo_ray_fields zip3_def map3_def dot3_def splat_def vmul_def vadd_def clamp_f_def)

text \<open>
  The second brick is left through the edge \<open>x = 1, y = 1\<close>: two components of \<open>tv\<close> are
  equal, \<open>voxIncr\<close> is \<open>(1, 1, 0)\<close>, the dot product adds both distances to \<open>91/3\<close>, and the
  clamp leaves the exit distance at \<open>t + brickDia = 205/12\<close>, beyond \<open>tfar = 91/6\<close>.
\<close>

lemma demo_edge_advance_2:
  assumes "brickRes rc = (1, 1, 2)"
  shows "dda_advance (demo_ray demo_cam_edge)
           (dda_setup (demo_scene a a8) rc (demo_ray demo_cam_edge))
           \<lparr>dda_cell = (0, 0, 1), dda_tv = (91 / 6, 91 / 6, 221 / 12)\<rparr> (169 / 12) =
         (\<lparr>dda_cell = (1, 1, 1), dda_tv = (52 / 3, 65 / 3, 221 / 12)\<rparr>, 205 / 12)"
  by (simp add: dda_advance_def demo_dda_setup [OF assms] Let_def demo_ray_fields
      zip3_def map3_def dot3_def splat_def vmul_def vadd_def clamp_f_def)

lemma demo_edge_loop:
  "\<exists>s. ess_loop 8 8 (demo_scene (1 / 5) 51) (rendering demo_render) demo_rc_aerial
          (demo_ray demo_cam_edge)
          (dda_setup (demo_scene (1 / 5) 51) demo_rc_aerial (demo_ray demo_cam_edge))
          (dda_start (demo_scene (1 / 5) 51) demo_rc_aerial (demo_ray demo_cam_edge))
          (ray_start (demo_ray demo_cam_edge)) =
        Some (composite (demo_ray demo_cam_edge)
                (ray_sample (demo_scene (1 / 5) 51) (rendering demo_render) demo_rc_aerial
                   (demo_ray demo_cam_edge) s)) \<and>
        r_t s = 559 / 36 \<and> r_alpha s = 248 / 625 \<and>
        r_result s = (377 / 625, 377 / 625, 377 / 625, 1)"
proof -
  let ?sc = "demo_scene (1 / 5) 51"
  let ?rp = "rendering demo_render"
  let ?rc = demo_rc_aerial
  let ?ry = "demo_ray demo_cam_edge"
  note b = demo_rc_params(10)
  have s0: "r_t (ray_start ?ry) = 13" by (simp add: demo_start)
  obtain s1 where
    l1: "ray_loop 8 ?sc ?rp ?rc ?ry (169 / 12) (ray_start ?ry) = Some s1"
    and f1: "r_t s1 = 130 / 9" "r_alpha s1 = 23 / 75" "r_result s1 = (52 / 75, 52 / 75, 52 / 75, 1)"
  proof -
    have "\<exists>s1. ray_loop 8 ?sc ?rp ?rc ?ry (169 / 12) (ray_start ?ry) = Some s1 \<and>
          r_t s1 = 130 / 9 \<and> r_alpha s1 = 23 / 75 \<and> r_result s1 = (52 / 75, 52 / 75, 52 / 75, 1)"
      by (simp add: eval_nat_numeral demo_step_aerial Let_def demo_ray_fields demo_start
          demo_rc_params ERT_THRESHOLD_def with_xyz_def xyz_def vsub_def smul_def vw_def)
    then show ?thesis using that by blast
  qed
  define s2 where "s2 = composite ?ry (ray_sample ?sc ?rp ?rc ?ry (s1\<lparr>r_t := 169 / 12\<rparr>))"
  have f2: "r_t s2 = 169 / 12" "r_alpha s2 = 47 / 125"
     "r_result s2 = (78 / 125, 78 / 125, 78 / 125, 1)"
    by (simp_all add: s2_def demo_step_aerial f1 with_xyz_def xyz_def vsub_def smul_def vw_def)
  define s3 where
    "s3 = composite ?ry (ray_sample ?sc ?rp ?rc ?ry (s2\<lparr>r_t := 533 / 36\<rparr>))"
  have f3: "r_t s3 = 533 / 36" "r_alpha s3 = 248 / 625"
     "r_result s3 = (377 / 625, 377 / 625, 377 / 625, 1)"
    by (simp_all add: s3_def demo_step_aerial f2 with_xyz_def xyz_def vsub_def smul_def vw_def)
  define s4 where "s4 = s3\<lparr>r_t := 559 / 36\<rparr>"
  define s5 where "s5 = composite ?ry (ray_sample ?sc ?rp ?rc ?ry s4)"
  have f4: "r_t s4 = 559 / 36" "r_alpha s4 = 248 / 625"
     "r_result s4 = (377 / 625, 377 / 625, 377 / 625, 1)"
    by (simp_all add: s4_def f3)
  have f5: "r_t s5 = 559 / 36" "r_alpha s5 = 7063 / 18750"
    by (simp_all add: s5_def demo_step_aerial f4)
  have l2: "ray_loop 8 ?sc ?rp ?rc ?ry (205 / 12) (s1\<lparr>r_t := 169 / 12\<rparr>) = Some s5"
    by (simp add: eval_nat_numeral Let_def demo_ray_fields s2_def [symmetric] f2
        s3_def [symmetric] f3 s4_def [symmetric] s5_def [symmetric] f4 f5 ERT_THRESHOLD_def
        demo_rc_params)
  have e: "dda_exit (dda_setup ?sc ?rc ?ry) = (1, 1, 2)" by (simp add: demo_dda_setup [OF b])
  have "ess_loop (Suc (Suc n)) 8 ?sc ?rp ?rc ?ry (dda_setup ?sc ?rc ?ry)
          (dda_start ?sc ?rc ?ry) (ray_start ?ry) = Some s5" for n
    by (simp add: s0 demo_ray_fields demo_edge_advance_1 [OF b] demo_edge_advance_2 [OF b]
        demo_not_skipped Let_def l1 f1 l2 f5 e ERT_THRESHOLD_def any3_def zip3_def
        del: ray_loop.simps)
  from this [of 6]
  have "ess_loop 8 8 ?sc ?rp ?rc ?ry (dda_setup ?sc ?rc ?ry) (dda_start ?sc ?rc ?ry)
          (ray_start ?ry) = Some s5"
    by (simp add: eval_nat_numeral del: ess_loop.simps)
  with f4 show ?thesis unfolding s5_def by blast
qed

text \<open>
  Claim C1 at a ray that leaves the volume through an edge, in the kernel built with
  \<open>-DESS\<close> and with the depth cue on. Every transfer-function alpha is \<open>1/5\<close> and the
  exponent is 1. The last sample is taken at \<open>t = 559/36\<close>, past \<open>tfar = 91/6\<close>, where the
  depth cue \<open>1 - (t - tnear) / sampleDist\<close> that the kernel comments as \<open>[0..1]\<close> is
  \<open>-1/6\<close>: the opacity of this sample is \<open>-1/30\<close>, and it takes the accumulated alpha down
  from \<open>248/625\<close> to \<open>7063/18750\<close>, which is the alpha of the pixel written.
\<close>

theorem depth_cue_negative_past_tfar:
  "(\<exists>s. ess_loop 8 8 (demo_scene (1 / 5) 51) (rendering demo_render) demo_rc_aerial
           (demo_ray demo_cam_edge)
           (dda_setup (demo_scene (1 / 5) 51) demo_rc_aerial (demo_ray demo_cam_edge))
           (dda_start (demo_scene (1 / 5) 51) demo_rc_aerial (demo_ray demo_cam_edge))
           (ray_start (demo_ray demo_cam_edge)) =
         Some (composite (demo_ray demo_cam_edge)
                (ray_sample (demo_scene (1 / 5) 51) (rendering demo_render) demo_rc_aerial
                   (demo_ray demo_cam_edge) s)) \<and>
         r_t s = 559 / 36 \<and> ray_tfar (demo_ray demo_cam_edge) = 91 / 6 \<and>
         vw (tffData (demo_scene (1 / 5) 51) (r_density s)) = 1 / 5 \<and>
         ray_refSamplingInterval (demo_ray demo_cam_edge) = 1 \<and>
         r_alpha s = 248 / 625 \<and>
         r_opacity (composite (demo_ray demo_cam_edge)
                (ray_sample (demo_scene (1 / 5) 51) (rendering demo_render) demo_rc_aerial
                   (demo_ray demo_cam_edge) s)) = - (1 / 30) \<and>
         r_alpha (composite (demo_ray demo_cam_edge)
                (ray_sample (demo_scene (1 / 5) 51) (rendering demo_render) demo_rc_aerial
                   (demo_ray demo_cam_edge) s)) = 7063 / 18750) \<and>
   volumeRender_grouped True 8 (demo_scene (1 / 5) 51) None (camera demo_render)
     (rendering demo_render) demo_rc_aerial (pathtrace demo_render) (0, 0) 1 (0, 0, 0)
     demo_cam_edge demo_dir =
   Done \<lparr>outImg = Some (11687 / 18750, 11687 / 18750, 11687 / 18750, 7063 / 18750),
         outAccumulate = Some (11687 / 18750, 11687 / 18750, 11687 / 18750, 7063 / 18750)\<rparr>"
proof -
  let ?sc = "demo_scene (1 / 5) 51"
  let ?ry = "demo_ray demo_cam_edge"
  let ?step = "\<lambda>s. composite ?ry (ray_sample ?sc (rendering demo_render) demo_rc_aerial ?ry s)"
  from demo_edge_loop obtain s where
    l: "ess_loop 8 8 ?sc (rendering demo_render) demo_rc_aerial ?ry
          (dda_setup ?sc demo_rc_aerial ?ry) (dda_start ?sc demo_rc_aerial ?ry) (ray_start ?ry) =
        Some (?step s)"
    and f: "r_t s = 559 / 36" "r_alpha s = 248 / 625"
      "r_result s = (377 / 625, 377 / 625, 377 / 625, 1)"
    by blast
  have g: "r_opacity (?step s) = - (1 / 30)" "r_alpha (?step s) = 7063 / 18750"
    "r_result (?step s) = (11687 / 18750, 11687 / 18750, 11687 / 18750, 1)"
    by (simp_all add: demo_step_aerial f with_xyz_def xyz_def vsub_def smul_def vw_def)
  have k: "volumeRender_grouped True 8 ?sc None (camera demo_render)
     (rendering demo_render) demo_rc_aerial (pathtrace demo_render) (0, 0) 1 (0, 0, 0)
     demo_cam_edge demo_dir =
   Done \<lparr>outImg = Some (11687 / 18750, 11687 / 18750, 11687 / 18750, 7063 / 18750),
         outAccumulate = Some (11687 / 18750, 11687 / 18750, 11687 / 18750, 7063 / 18750)\<rparr>"
    unfolding demo_kernel [OF demo_rc_params(6,10) disjI2 [OF disjI1 [OF refl]] demo_volRes(1)]
    by (simp add: l g with_w_def del: ess_loop.simps)
  have d: "vw (tffData ?sc (r_density s)) = 1 / 5" by (simp add: demo_scene_def vw_def)
  from l f g k d show ?thesis by (intro conjI exI [of _ s]) (simp_all add: demo_ray_fields)
qed

text \<open>The pixel of C1's ray, as the kernel writes it.\<close>

theorem depth_cue_negative_past_tfar_witness:
  "volumeRender_grouped True 8 (demo_scene (1 / 5) 51) None (camera demo_render)
     (rendering demo_render) demo_rc_aerial (pathtrace demo_render) (0, 0) 1 (0, 0, 0)
     demo_cam_edge demo_dir =
   Done \<lparr>outImg = Some (11687 / 18750, 11687 / 18750, 11687 / 18750, 7063 / 18750),
         outAccumulate = Some (11687 / 18750, 11687 / 18750, 11687 / 18750, 7063 / 18750)\<rparr>"
  using depth_cue_negative_past_tfar by blast

subsection \<open>A fully transparent transfer function leaves the environment colour\<close>











subsection \<open>Object-order empty-space skipping and the rendered pixel\<close>






subsection \<open>The (min, max) pair of a brick\<close>

lemma min_max_step_pair:
  "min_max_step sc (a, b) c = (min a (volTexel sc c), max b (volTexel sc c))"
  by (simp add: min_max_step_def Let_def)










lemma demo_row_blocks:
  "block_lower demo_row_scene (3, 0, 0) = (6, 0, 0)"
  "block_upper demo_row_scene (3, 0, 0) = (5, 1, 1)"
  "block_lower demo_row_scene (2, 0, 0) = (4, 0, 0)"
  "block_upper demo_row_scene (2, 0, 0) = (5, 1, 1)"
proof -
  have c: "\<lceil>(5 :: real) / 4\<rceil> = 2" by (simp add: ceiling_eq_iff)
  show "block_lower demo_row_scene (3, 0, 0) = (6, 0, 0)"
    "block_upper demo_row_scene (3, 0, 0) = (5, 1, 1)"
    "block_lower demo_row_scene (2, 0, 0) = (4, 0, 0)"
    "block_upper demo_row_scene (2, 0, 0) = (5, 1, 1)"
    by (simp_all add: block_lower_def block_upper_def demo_row_scene_def demo_scene_def zip3_def
        clamp_i_def c)
qed

lemma demo_row_cells:
  "generateBricks_kernel demo_row_scene (2, 0, 0) = Some (1, 1)"
  "generateBricks_kernel demo_row_scene (3, 0, 0) = Some (1, 0)"
proof -
  have u: "[4..(4 :: int)] = [4]" "[0..(0 :: int)] = [0]" "[6..(4 :: int)] = []"
    by (simp_all add: upto.simps)
  have t: "volTexel demo_row_scene c = 1" for c
    by (simp add: demo_row_scene_def demo_scene_def)
  have g: "bricksRes demo_row_scene = (4, 1, 1)"
    by (simp add: demo_row_scene_def demo_scene_def)
  show "generateBricks_kernel demo_row_scene (2, 0, 0) = Some (1, 1)"
    by (simp add: generateBricks_kernel_def demo_row_blocks block_voxels_def u min_max_step_pair
        t g any3_def zip3_def)
  show "generateBricks_kernel demo_row_scene (3, 0, 0) = Some (1, 0)"
    by (simp add: generateBricks_kernel_def demo_row_blocks block_voxels_def u g any3_def zip3_def)
qed




text \<open>
  The shape of the grid matters. Bound to a row of five voxels and a grid of four bricks,
  which the host does not build, the kernel finds no voxel for cell 3, whose block starts
  at voxel 6, and writes the pair \<open>(1, 0)\<close> it starts from.
\<close>

lemma generateBricks_kernel_foreign_grid:
  "generateBricks_kernel demo_row_scene (3, 0, 0) = Some (1, 0)"
  by (rule demo_row_cells(2))

end
